theory Spec2Isabelle
  imports Main
begin

section \<open>Python values, dictionaries and exceptions\<close>

text \<open>
  The scrapers and the database connector pass articles around as Python dictionaries
  whose values are strings, lists of strings or \<^verbatim>\<open>None\<close>. A dictionary is a map
  from keys to such values. Strings are lists of characters with code points below 256.
\<close>

datatype pyval = PNone | PStr string | PList "string list"

type_synonym pydict = "string \<rightharpoonup> pyval"

datatype exn =
    KeyError string
  | TypeError
  | AttributeError
  | IndexError
  | ParserError
  | ValueError
  | IntegrityError string

text \<open>\<^verbatim>\<open>d.get(k, default)\<close> and \<^verbatim>\<open>d.get(k)\<close>.\<close>

definition dict_get :: "pydict \<Rightarrow> string \<Rightarrow> pyval \<Rightarrow> pyval" where
  "dict_get d k dflt = (case d k of None \<Rightarrow> dflt | Some v \<Rightarrow> v)"

definition dict_get_none :: "pydict \<Rightarrow> string \<Rightarrow> pyval" where
  "dict_get_none d k = dict_get d k PNone"

text \<open>Truth value of a Python object, as tested by \<^verbatim>\<open>if x\<close> and \<^verbatim>\<open>not x\<close>.\<close>

fun truthy :: "pyval \<Rightarrow> bool" where
  "truthy PNone = False"
| "truthy (PStr s) = (s \<noteq> [])"
| "truthy (PList xs) = (xs \<noteq> [])"

text \<open>\<^verbatim>\<open>sep.join(xs)\<close> on a list of strings.\<close>

fun str_join :: "string \<Rightarrow> string list \<Rightarrow> string" where
  "str_join sep [] = []"
| "str_join sep [x] = x"
| "str_join sep (x # y # ys) = x @ sep @ str_join sep (y # ys)"

text \<open>
  \<^verbatim>\<open>sep.join(v)\<close> on an arbitrary value: a list of strings is joined, a string is
  iterated character by character, \<^verbatim>\<open>None\<close> is not iterable.
\<close>

fun py_join :: "string \<Rightarrow> pyval \<Rightarrow> exn + string" where
  "py_join sep (PList xs) = Inr (str_join sep xs)"
| "py_join sep (PStr s) = Inr (str_join sep (map (\<lambda>c. [c]) s))"
| "py_join sep PNone = Inl TypeError"

section \<open>Strings\<close>

text \<open>
  \<^verbatim>\<open>str.strip()\<close> removes white space at both ends; these are the white-space code
  points below 256. \<^verbatim>\<open>s.rstrip(chars)\<close> removes trailing characters of \<open>chars\<close>.
\<close>

definition py_isspace :: "char \<Rightarrow> bool" where
  "py_isspace c =
     (c \<in> set [CHR 0x09, CHR 0x0A, CHR 0x0B, CHR 0x0C, CHR 0x0D, CHR 0x1C, CHR 0x1D,
                CHR 0x1E, CHR 0x1F, CHR 0x20, CHR 0x85, CHR 0xA0])"

definition strip :: "string \<Rightarrow> string" where
  "strip s = rev (dropWhile py_isspace (rev (dropWhile py_isspace s)))"

definition rstrip_chars :: "string \<Rightarrow> string \<Rightarrow> string" where
  "rstrip_chars chars s = rev (dropWhile (\<lambda>c. c \<in> set chars) (rev s))"

text \<open>\<^verbatim>\<open>s.startswith(p)\<close> and \<^verbatim>\<open>sub in s\<close> on strings.\<close>

definition startswith :: "string \<Rightarrow> string \<Rightarrow> bool" where
  "startswith s p = (take (length p) s = p)"

fun str_contains :: "string \<Rightarrow> string \<Rightarrow> bool" where
  "str_contains sub [] = (sub = [])"
| "str_contains sub (c # s) = (startswith (c # s) sub \<or> str_contains sub s)"

text \<open>\<^verbatim>\<open>s.replace(old, new)\<close>: every occurrence of \<open>old\<close>, left to right.\<close>

function str_replace_from :: "string \<Rightarrow> string \<Rightarrow> string \<Rightarrow> string" where
  "str_replace_from old new [] = []"
| "str_replace_from old new (c # s) =
     (if old \<noteq> [] \<and> startswith (c # s) old
      then new @ str_replace_from old new (drop (length old) (c # s))
      else c # str_replace_from old new s)"
  by pat_completeness auto
termination
  by (relation "measure (\<lambda>(old, new, s). length s)") auto

definition str_replace :: "string \<Rightarrow> string \<Rightarrow> string \<Rightarrow> string" where
  "str_replace old new s =
     (if old = [] then new @ concat (map (\<lambda>c. c # new) s) else str_replace_from old new s)"

section \<open>Parsed markup\<close>

text \<open>
  The tree \<^verbatim>\<open>BeautifulSoup(html_content, 'html.parser')\<close> builds: a tag has a name,
  attributes and children; a text node is a \<^verbatim>\<open>NavigableString\<close>, or a string of
  one of its subclasses: a comment, a declaration, or the string the parser puts inside
  a \<^verbatim>\<open>script\<close>, \<^verbatim>\<open>style\<close>, \<^verbatim>\<open>template\<close>, \<^verbatim>\<open>rt\<close> or \<^verbatim>\<open>rp\<close>
  element. The value of a multi-valued attribute such as \<^verbatim>\<open>class\<close> is the list of
  its tokens, any other attribute's value is a string. The soup object is the root tag
  of the tree.
\<close>

datatype string_class =
    CData
  | Comment
  | Declaration
  | Script
  | Stylesheet
  | TemplateString
  | RubyTextString
  | RubyParenthesisString

datatype node =
    NavigableString string
  | SpecialString string_class string
  | Tag string "(string \<times> pyval) list" "node list"

fun contents :: "node \<Rightarrow> node list" where
  "contents (Tag n a cs) = cs"
| "contents (NavigableString s) = []"
| "contents (SpecialString k s) = []"

text \<open>All nodes below a node, in document order.\<close>

fun descendants :: "node \<Rightarrow> node list" where
  "descendants (NavigableString s) = []"
| "descendants (SpecialString k s) = []"
| "descendants (Tag n a cs) = concat (map (\<lambda>c. c # descendants c) cs)"

text \<open>
  \<^verbatim>\<open>element.text\<close>: the strings below the element whose class is one the element
  takes an interest in, concatenated. A \<^verbatim>\<open>script\<close>, \<^verbatim>\<open>style\<close>, \<^verbatim>\<open>template\<close>,
  \<^verbatim>\<open>rt\<close> or \<^verbatim>\<open>rp\<close> element takes the strings of its own class; any other
  element takes plain strings and \<^verbatim>\<open>CData\<close>, and so leaves out comments,
  declarations and what is inside scripts and styles.
\<close>

definition interesting_string_types :: "string \<Rightarrow> string_class option list" where
  "interesting_string_types name =
     (if name = ''rt'' then [Some RubyTextString]
      else if name = ''rp'' then [Some RubyParenthesisString]
      else if name = ''style'' then [Some Stylesheet]
      else if name = ''script'' then [Some Script]
      else if name = ''template'' then [Some TemplateString]
      else [None, Some CData])"

fun all_strings :: "string_class option list \<Rightarrow> node \<Rightarrow> string" where
  "all_strings types (NavigableString s) = (if None \<in> set types then s else [])"
| "all_strings types (SpecialString k s) = (if Some k \<in> set types then s else [])"
| "all_strings types (Tag n a cs) = concat (map (all_strings types) cs)"

fun get_text :: "node \<Rightarrow> string" where
  "get_text (NavigableString s) = s"
| "get_text (SpecialString k s) = s"
| "get_text (Tag n a cs) = concat (map (all_strings (interesting_string_types n)) cs)"

text \<open>\<^verbatim>\<open>tag.get(k)\<close>, \<^verbatim>\<open>tag.get(k, default)\<close> and \<^verbatim>\<open>tag[k]\<close>, which raises on a missing attribute.\<close>

fun tag_get :: "node \<Rightarrow> string \<Rightarrow> pyval option" where
  "tag_get (Tag n a cs) k = map_of a k"
| "tag_get (NavigableString s) k = None"
| "tag_get (SpecialString c s) k = None"

definition tag_get_default :: "node \<Rightarrow> string \<Rightarrow> pyval \<Rightarrow> pyval" where
  "tag_get_default t k dflt = (case tag_get t k of None \<Rightarrow> dflt | Some v \<Rightarrow> v)"

definition tag_getitem :: "node \<Rightarrow> string \<Rightarrow> exn + pyval" where
  "tag_getitem t k = (case tag_get t k of None \<Rightarrow> Inl (KeyError k) | Some v \<Rightarrow> Inr v)"

subsection \<open>Search filters\<close>

text \<open>The name filter: \<^verbatim>\<open>find('div', ...)\<close> or \<^verbatim>\<open>find(['div', 'aside'], ...)\<close>.\<close>

fun is_tag :: "string list \<Rightarrow> node \<Rightarrow> bool" where
  "is_tag names (Tag n a cs) = (n \<in> set names)"
| "is_tag names (NavigableString s) = False"
| "is_tag names (SpecialString k s) = False"

text \<open>
  An attribute filter with a string, as \<^verbatim>\<open>class_='feed__item'\<close>, \<^verbatim>\<open>id='main-content'\<close>
  or \<^verbatim>\<open>rel='author'\<close>: a string value must equal it; of a token list, one token or
  the tokens joined by spaces must equal it.
\<close>

definition attr_is :: "string \<Rightarrow> string \<Rightarrow> node \<Rightarrow> bool" where
  "attr_is k v t =
     (case tag_get t k of
        None \<Rightarrow> False
      | Some PNone \<Rightarrow> False
      | Some (PStr s) \<Rightarrow> s = v
      | Some (PList xs) \<Rightarrow> v \<in> set xs \<or> str_join '' '' xs = v)"

text \<open>
  An attribute filter with a function, as \<^verbatim>\<open>class_=lambda c: ...\<close>: the function is
  called with \<^verbatim>\<open>None\<close> when the attribute is missing, with a string value, or with
  each token of a token list and then with the tokens joined by spaces.
\<close>

definition attr_fn :: "string \<Rightarrow> (string option \<Rightarrow> bool) \<Rightarrow> node \<Rightarrow> bool" where
  "attr_fn k f t =
     (case tag_get t k of
        None \<Rightarrow> f None
      | Some PNone \<Rightarrow> f None
      | Some (PStr s) \<Rightarrow> f (Some s)
      | Some (PList xs) \<Rightarrow> list_ex (\<lambda>x. f (Some x)) xs \<or> f (Some (str_join '' '' xs)))"

definition tag_class :: "string list \<Rightarrow> string \<Rightarrow> node \<Rightarrow> bool" where
  "tag_class names cls t = (is_tag names t \<and> attr_is ''class'' cls t)"

definition tag_id :: "string list \<Rightarrow> string \<Rightarrow> node \<Rightarrow> bool" where
  "tag_id names i t = (is_tag names t \<and> attr_is ''id'' i t)"

text \<open>\<^verbatim>\<open>element.find_all(...)\<close> and \<^verbatim>\<open>element.find(...)\<close> search below the element.\<close>

definition find_all :: "(node \<Rightarrow> bool) \<Rightarrow> node \<Rightarrow> node list" where
  "find_all P t = filter P (descendants t)"

definition find_first :: "(node \<Rightarrow> bool) \<Rightarrow> node \<Rightarrow> node option" where
  "find_first P t = (case find_all P t of [] \<Rightarrow> None | x # xs \<Rightarrow> Some x)"

subsection \<open>Removing elements\<close>

text \<open>
  \<^verbatim>\<open>for x in element.find_all(P): x.decompose()\<close> removes every match below the
  element, with everything inside it.
\<close>

fun decompose_all :: "(node \<Rightarrow> bool) \<Rightarrow> node \<Rightarrow> node" where
  "decompose_all P (NavigableString s) = NavigableString s"
| "decompose_all P (SpecialString k s) = SpecialString k s"
| "decompose_all P (Tag n a cs) =
     Tag n a (concat (map (\<lambda>c. if P c then [] else [decompose_all P c]) cs))"

text \<open>
  The tree is mutable: a change made to the element that \<^verbatim>\<open>find\<close> returned is a
  change of the tree it was found in. \<open>update_first Q f\<close> rewrites the first node in
  document order that satisfies \<open>Q\<close>, and says whether there was one.
\<close>

function update_first :: "(node \<Rightarrow> bool) \<Rightarrow> (node \<Rightarrow> node) \<Rightarrow> node list \<Rightarrow> node list option"
  where
  "update_first Q f [] = None"
| "update_first Q f (NavigableString s # rest) =
     (if Q (NavigableString s) then Some (f (NavigableString s) # rest)
      else map_option (\<lambda>r. NavigableString s # r) (update_first Q f rest))"
| "update_first Q f (SpecialString k s # rest) =
     (if Q (SpecialString k s) then Some (f (SpecialString k s) # rest)
      else map_option (\<lambda>r. SpecialString k s # r) (update_first Q f rest))"
| "update_first Q f (Tag n a cs # rest) =
     (if Q (Tag n a cs) then Some (f (Tag n a cs) # rest)
      else (case update_first Q f cs of
              Some cs' \<Rightarrow> Some (Tag n a cs' # rest)
            | None \<Rightarrow> map_option (\<lambda>r. Tag n a cs # r) (update_first Q f rest)))"
  by pat_completeness auto
termination
  by (relation "measure (\<lambda>(Q, f, ns). size_list size ns)") auto

fun update_below :: "(node \<Rightarrow> bool) \<Rightarrow> (node \<Rightarrow> node) \<Rightarrow> node \<Rightarrow> node" where
  "update_below Q f (NavigableString s) = NavigableString s"
| "update_below Q f (SpecialString k s) = SpecialString k s"
| "update_below Q f (Tag n a cs) =
     (case update_first Q f cs of None \<Rightarrow> Tag n a cs | Some cs' \<Rightarrow> Tag n a cs')"

text \<open>\<^verbatim>\<open>' '.join([p.text.strip() for p in paragraphs])\<close>.\<close>

definition join_text :: "node list \<Rightarrow> string" where
  "join_text paragraphs = str_join '' '' (map (\<lambda>p. strip (get_text p)) paragraphs)"

section \<open>The listing extractors\<close>

text \<open>
  The three \<^verbatim>\<open>parse_*_links\<close> methods share one loop: \<^verbatim>\<open>links = []\<close>, then for
  each item either nothing (the item is skipped) or \<^verbatim>\<open>links.append({...})\<close>; an
  exception raised for an item leaves the loop. \<open>body item\<close> is what one round of the
  loop does: it raises, skips, or appends a dictionary.
\<close>

fun links_loop :: "(node \<Rightarrow> exn + pydict option) \<Rightarrow> node list \<Rightarrow> exn + pydict list" where
  "links_loop body [] = Inr []"
| "links_loop body (item # items) =
     (case body item of
        Inl e \<Rightarrow> Inl e
      | Inr None \<Rightarrow> links_loop body items
      | Inr (Some d) \<Rightarrow>
          (case links_loop body items of Inl e \<Rightarrow> Inl e | Inr links \<Rightarrow> Inr (d # links)))"

text \<open>
  The guard of each loop: \<^verbatim>\<open>title_element = item.find(...)\<close> and then
  \<^verbatim>\<open>if title_element and title_element.find('a')\<close>. A tag is always true, so the
  guard holds exactly when the title element exists and has an anchor below it.
\<close>

definition title_anchor :: "(node \<Rightarrow> bool) \<Rightarrow> node \<Rightarrow> node option" where
  "title_anchor title_filter item =
     (case find_first title_filter item of
        None \<Rightarrow> None
      | Some title_element \<Rightarrow> find_first (is_tag [''a'']) title_element)"

text \<open>\<^verbatim>\<open>x.text.strip() if x else ""\<close>.\<close>

definition text_or_empty :: "node option \<Rightarrow> string" where
  "text_or_empty x = (case x of None \<Rightarrow> [] | Some el \<Rightarrow> strip (get_text el))"

text \<open>
  The part of \<^verbatim>\<open>except Exception as e: print(...); return []\<close> that the caller
  sees: whatever the \<^verbatim>\<open>try\<close> block raised, the method returns the empty list.
\<close>

definition except_return_empty :: "exn + pydict list \<Rightarrow> exn + pydict list" where
  "except_return_empty tried = (case tried of Inl e \<Rightarrow> Inr [] | Inr links \<Rightarrow> Inr links)"

subsection \<open>\<^verbatim>\<open>CredailyScraper.parse_brief_links\<close>\<close>

definition CredailyScraper_brief_item :: "node \<Rightarrow> exn + pydict option" where
  "CredailyScraper_brief_item item =
     (case title_anchor (tag_class [''h5''] ''c-brief-list__item-title'') item of
        None \<Rightarrow> Inr None
      | Some anchor \<Rightarrow>
          (case tag_getitem anchor ''href'' of
             Inl e \<Rightarrow> Inl e
           | Inr link \<Rightarrow>
               (let title = strip (get_text anchor);
                    summary = text_or_empty
                      (find_first (tag_class [''p''] ''c-brief-list__item-text'') item);
                    author =
                      (case find_first (tag_class [''div''] ''c-brief-list__item-author'') item of
                         None \<Rightarrow> []
                       | Some el \<Rightarrow> strip (str_replace ''By'' [] (get_text el)));
                    date = text_or_empty
                      (find_first (tag_class [''div''] ''c-brief-list__item-date'') item);
                    categories =
                      (case find_first (tag_class [''div''] ''c-brief-list__item-category'') item of
                         None \<Rightarrow> []
                       | Some el \<Rightarrow>
                           map (\<lambda>cat. strip (get_text cat))
                             (find_all (tag_class [''a''] ''c-articles__category'') el))
                in Inr (Some [''link'' \<mapsto> link, ''title'' \<mapsto> PStr title,
                              ''summary'' \<mapsto> PStr summary, ''author'' \<mapsto> PStr author,
                              ''date'' \<mapsto> PStr date,
                              ''categories'' \<mapsto> PList categories]))))"

definition CredailyScraper_parse_brief_links_try ::
  "(string \<Rightarrow> exn + node) \<Rightarrow> string \<Rightarrow> exn + pydict list" where
  "CredailyScraper_parse_brief_links_try BeautifulSoup html_content =
     (case BeautifulSoup html_content of
        Inl e \<Rightarrow> Inl e
      | Inr soup \<Rightarrow>
          links_loop CredailyScraper_brief_item
            (find_all (tag_class [''div''] ''c-brief-list__item'') soup))"

definition CredailyScraper_parse_brief_links ::
  "(string \<Rightarrow> exn + node) \<Rightarrow> string \<Rightarrow> int \<Rightarrow> exn + pydict list" where
  "CredailyScraper_parse_brief_links BeautifulSoup html_content page_num =
     except_return_empty (CredailyScraper_parse_brief_links_try BeautifulSoup html_content)"

subsection \<open>\<^verbatim>\<open>MultifamilydiveScraper.parse_article_links\<close>\<close>

text \<open>\<^verbatim>\<open>x in v\<close> for a string \<open>x\<close>: membership in a list, containment in a string.\<close>

fun py_in :: "string \<Rightarrow> pyval \<Rightarrow> exn + bool" where
  "py_in x (PList xs) = Inr (x \<in> set xs)"
| "py_in x (PStr s) = Inr (str_contains x s)"
| "py_in x PNone = Inl TypeError"

definition MultifamilydiveScraper_article_item :: "node \<Rightarrow> exn + pydict option" where
  "MultifamilydiveScraper_article_item item =
     (case py_in ''feed-item-ad'' (tag_get_default item ''class'' (PList [])) of
        Inl e \<Rightarrow> Inl e
      | Inr True \<Rightarrow> Inr None
      | Inr False \<Rightarrow>
          (case title_anchor (tag_class [''h3''] ''feed__title'') item of
             None \<Rightarrow> Inr None
           | Some anchor \<Rightarrow>
               (case tag_getitem anchor ''href'' of
                  Inl e \<Rightarrow> Inl e
                | Inr PNone \<Rightarrow> Inl AttributeError
                | Inr (PList xs) \<Rightarrow> Inl AttributeError
                | Inr (PStr href) \<Rightarrow>
                    (let link = (if \<not> startswith href ''http''
                                 then ''https://www.multifamilydive.com'' @ href
                                 else href);
                         title = strip (get_text anchor);
                         summary = text_or_empty
                           (find_first (tag_class [''p''] ''feed__description'') item);
                         category = text_or_empty
                           (find_first (tag_class [''span''] ''label'') item)
                     in Inr (Some [''link'' \<mapsto> PStr link, ''title'' \<mapsto> PStr title,
                                   ''summary'' \<mapsto> PStr summary, ''author'' \<mapsto> PStr [],
                                   ''author_title'' \<mapsto> PStr [], ''date'' \<mapsto> PStr [],
                                   ''categories'' \<mapsto>
                                      PList (if category \<noteq> [] then [category] else []),
                                   ''source'' \<mapsto> PStr ''multifamilydive''])))))"

definition MultifamilydiveScraper_parse_article_links_try ::
  "(string \<Rightarrow> exn + node) \<Rightarrow> string \<Rightarrow> exn + pydict list" where
  "MultifamilydiveScraper_parse_article_links_try BeautifulSoup html_content =
     (case BeautifulSoup html_content of
        Inl e \<Rightarrow> Inl e
      | Inr soup \<Rightarrow>
          links_loop MultifamilydiveScraper_article_item
            (find_all (tag_class [''li''] ''feed__item'') soup))"

definition MultifamilydiveScraper_parse_article_links ::
  "(string \<Rightarrow> exn + node) \<Rightarrow> string \<Rightarrow> int \<Rightarrow> exn + pydict list" where
  "MultifamilydiveScraper_parse_article_links BeautifulSoup html_content page_num =
     except_return_empty (MultifamilydiveScraper_parse_article_links_try BeautifulSoup html_content)"

subsection \<open>\<^verbatim>\<open>MultihousingScraper.parse_brief_links\<close>\<close>

text \<open>
  The date is \<^verbatim>\<open>meta_element.contents[-1]\<close> when the meta element holds a separator
  span and that last child is a string (of any class: each is a \<^verbatim>\<open>str\<close>).
\<close>

definition multihousing_date :: "node \<Rightarrow> exn + string" where
  "multihousing_date meta_element =
     (case find_first (tag_class [''span''] ''fl-post-meta-sep'') meta_element of
        None \<Rightarrow> Inr []
      | Some sep \<Rightarrow>
          (case contents meta_element of
             [] \<Rightarrow> Inl IndexError
           | c # cs \<Rightarrow>
               (case last (c # cs) of
                  NavigableString date_text \<Rightarrow> Inr (strip date_text)
                | SpecialString k date_text \<Rightarrow> Inr (strip date_text)
                | Tag n a ks \<Rightarrow> Inr [])))"

definition multihousing_image_url :: "node \<Rightarrow> exn + pyval" where
  "multihousing_image_url item =
     (case find_first (tag_class [''div''] ''fl-post-image'') item of
        None \<Rightarrow> Inr (PStr [])
      | Some image_element \<Rightarrow>
          (case find_first (is_tag [''img'']) image_element of
             None \<Rightarrow> Inr (PStr [])
           | Some img \<Rightarrow> tag_getitem img ''src''))"

definition MultihousingScraper_brief_item :: "node \<Rightarrow> exn + pydict option" where
  "MultihousingScraper_brief_item item =
     (case title_anchor (tag_class [''h2''] ''fl-post-title'') item of
        None \<Rightarrow> Inr None
      | Some anchor \<Rightarrow>
          (case tag_getitem anchor ''href'' of
             Inl e \<Rightarrow> Inl e
           | Inr link \<Rightarrow>
               (let title = strip (get_text anchor);
                    summary =
                      (case find_first (tag_class [''div''] ''fl-post-excerpt'') item of
                         None \<Rightarrow> []
                       | Some summary_element \<Rightarrow>
                           text_or_empty (find_first (is_tag [''p'']) summary_element));
                    meta_element = find_first (tag_class [''div''] ''fl-post-meta'') item;
                    author =
                      (case meta_element of
                         None \<Rightarrow> []
                       | Some m \<Rightarrow> text_or_empty (find_first (is_tag [''a'']) m))
                in case (case meta_element of None \<Rightarrow> Inr [] | Some m \<Rightarrow> multihousing_date m) of
                     Inl e \<Rightarrow> Inl e
                   | Inr date \<Rightarrow>
                       (let categories =
                              (case find_first (tag_class [''div''] ''cpe-categories'') item of
                                 None \<Rightarrow> []
                               | Some el \<Rightarrow>
                                   map (\<lambda>cat. strip (get_text cat))
                                     (find_all (is_tag [''a'']) el))
                        in case multihousing_image_url item of
                             Inl e \<Rightarrow> Inl e
                           | Inr image_url \<Rightarrow>
                               Inr (Some [''link'' \<mapsto> link, ''title'' \<mapsto> PStr title,
                                          ''summary'' \<mapsto> PStr summary,
                                          ''author'' \<mapsto> PStr author,
                                          ''date'' \<mapsto> PStr date,
                                          ''categories'' \<mapsto> PList categories,
                                          ''image_url'' \<mapsto> image_url])))))"

definition MultihousingScraper_parse_brief_links_try ::
  "(string \<Rightarrow> exn + node) \<Rightarrow> string \<Rightarrow> exn + pydict list" where
  "MultihousingScraper_parse_brief_links_try BeautifulSoup html_content =
     (case BeautifulSoup html_content of
        Inl e \<Rightarrow> Inl e
      | Inr soup \<Rightarrow>
          links_loop MultihousingScraper_brief_item
            (find_all (tag_class [''div''] ''cpe-posts-category-page'') soup))"

definition MultihousingScraper_parse_brief_links ::
  "(string \<Rightarrow> exn + node) \<Rightarrow> string \<Rightarrow> int \<Rightarrow> exn + pydict list" where
  "MultihousingScraper_parse_brief_links BeautifulSoup html_content page_num =
     except_return_empty (MultihousingScraper_parse_brief_links_try BeautifulSoup html_content)"

section \<open>The content resolvers\<close>

text \<open>
  \<^verbatim>\<open>paragraphs = element.find_all('p'); if paragraphs: content = ' '.join(...)\<close>,
  starting from the empty content.
\<close>

definition paragraphs_text :: "node \<Rightarrow> string" where
  "paragraphs_text element =
     (let paragraphs = find_all (is_tag [''p'']) element
      in if paragraphs \<noteq> [] then join_text paragraphs else [])"

text \<open>
  The last resort shared by the three resolvers: \<^verbatim>\<open>soup.find('body')\<close>, its
  \<^verbatim>\<open>header\<close>, \<^verbatim>\<open>footer\<close>, \<^verbatim>\<open>nav\<close> and \<^verbatim>\<open>aside\<close> elements removed, and the
  paragraphs whose stripped text is longer than 40 characters.
\<close>

definition body_paragraphs :: "node \<Rightarrow> string" where
  "body_paragraphs soup =
     (case find_first (is_tag [''body'']) soup of
        None \<Rightarrow> []
      | Some body \<Rightarrow>
          (let body' = decompose_all (is_tag [''header'', ''footer'', ''nav'', ''aside'']) body;
               paragraphs = find_all (is_tag [''p'']) body';
               content_paragraphs =
                 filter (\<lambda>t. length t > 40) (map (\<lambda>p. strip (get_text p)) paragraphs)
           in if content_paragraphs \<noteq> [] then str_join '' '' content_paragraphs else []))"

subsection \<open>\<^verbatim>\<open>CredailyScraper.parse_brief_content\<close>\<close>

text \<open>First selector: \<^verbatim>\<open>soup.find('div', class_='c-article__content')\<close>.\<close>

definition credaily_article_content :: "node \<Rightarrow> string" where
  "credaily_article_content soup =
     (case find_first (tag_class [''div''] ''c-article__content'') soup of
        None \<Rightarrow> []
      | Some content_element \<Rightarrow> paragraphs_text content_element)"

text \<open>Second selector: \<^verbatim>\<open>soup.find('div', class_='c-article__body')\<close>.\<close>

definition credaily_article_body :: "node \<Rightarrow> string" where
  "credaily_article_body soup =
     (case find_first (tag_class [''div''] ''c-article__body'') soup of
        None \<Rightarrow> []
      | Some article_body \<Rightarrow> paragraphs_text article_body)"

text \<open>
  Third selector: \<^verbatim>\<open>soup.find('main', id='main-content')\<close> with its \<^verbatim>\<open>header\<close>,
  \<^verbatim>\<open>nav\<close> and \<^verbatim>\<open>aside\<close> elements removed; the removal changes the soup.
\<close>

definition credaily_main_content :: "node \<Rightarrow> node \<times> string" where
  "credaily_main_content soup =
     (case find_first (tag_id [''main''] ''main-content'') soup of
        None \<Rightarrow> (soup, [])
      | Some main_content \<Rightarrow>
          (update_below (tag_id [''main''] ''main-content'')
             (decompose_all (is_tag [''header'', ''nav'', ''aside''])) soup,
           paragraphs_text (decompose_all (is_tag [''header'', ''nav'', ''aside'']) main_content)))"

text \<open>
  Fourth selector: the \<^verbatim>\<open>div\<close> elements whose class satisfies
  \<^verbatim>\<open>lambda c: c and ('article' in c or 'content' in c)\<close>, in document order; the first
  one with at least two paragraphs gives the content and ends the loop.
\<close>

definition article_or_content :: "string option \<Rightarrow> bool" where
  "article_or_content c =
     (case c of
        None \<Rightarrow> False
      | Some s \<Rightarrow> s \<noteq> [] \<and> (str_contains ''article'' s \<or> str_contains ''content'' s))"

fun article_divs_loop :: "node list \<Rightarrow> string" where
  "article_divs_loop [] = []"
| "article_divs_loop (d # article_divs) =
     (let paragraphs = find_all (is_tag [''p'']) d
      in if paragraphs \<noteq> [] \<and> length paragraphs \<ge> 2 then join_text paragraphs
         else article_divs_loop article_divs)"

definition credaily_article_divs :: "node \<Rightarrow> string" where
  "credaily_article_divs soup =
     article_divs_loop
       (find_all (\<lambda>t. is_tag [''div''] t \<and> attr_fn ''class'' article_or_content t) soup)"

text \<open>
  The method: each selector is tried only while the content is empty. The result is a
  copy of \<^verbatim>\<open>brief_info\<close> with the key \<^verbatim>\<open>content\<close> set; if the \<^verbatim>\<open>try\<close> block
  raises, the content is the empty string.
\<close>

definition CredailyScraper_resolve :: "node \<Rightarrow> string" where
  "CredailyScraper_resolve soup0 =
     (let content = credaily_article_content soup0;
          content = (if content = [] then credaily_article_body soup0 else content);
          (soup, content) = (if content = [] then credaily_main_content soup0 else (soup0, content));
          content = (if content = [] then credaily_article_divs soup else content);
          content = (if content = [] then body_paragraphs soup else content)
      in content)"

definition CredailyScraper_parse_brief_content ::
  "(string \<Rightarrow> exn + node) \<Rightarrow> string \<Rightarrow> pydict \<Rightarrow> exn + pydict" where
  "CredailyScraper_parse_brief_content BeautifulSoup html_content brief_info =
     (case BeautifulSoup html_content of
        Inl e \<Rightarrow> Inr (brief_info(''content'' \<mapsto> PStr []))
      | Inr soup \<Rightarrow> Inr (brief_info(''content'' \<mapsto> PStr (CredailyScraper_resolve soup))))"

subsection \<open>\<^verbatim>\<open>MultifamilydiveScraper.parse_article_content\<close>\<close>

text \<open>\<^verbatim>\<open>a or b\<close> on the results of two searches: a tag is always true.\<close>

definition or_else :: "node option \<Rightarrow> node option \<Rightarrow> node option" where
  "or_else a b = (case a of None \<Rightarrow> b | Some x \<Rightarrow> Some x)"

definition mfd_article_container :: "node \<Rightarrow> node option" where
  "mfd_article_container soup =
     or_else (find_first (tag_class [''article''] ''brief'') soup)
             (find_first (is_tag [''article'']) soup)"

text \<open>The author, from the author element or else from the byline.\<close>

definition mfd_author :: "node \<Rightarrow> pydict \<Rightarrow> pydict" where
  "mfd_author article_container article_info_copy =
     (case or_else (find_first (tag_class [''div''] ''author-name-with-headshot'') article_container)
                   (find_first (tag_class [''div''] ''author-name'') article_container) of
        Some author_element \<Rightarrow>
          (let copy1 =
                 (case find_first (\<lambda>t. is_tag [''a''] t \<and> attr_is ''rel'' ''author'' t)
                         author_element of
                    None \<Rightarrow> article_info_copy
                  | Some author_link \<Rightarrow>
                      article_info_copy(''author'' \<mapsto> PStr (strip (get_text author_link))))
           in case find_first (tag_class [''span''] ''author-title'') author_element of
                None \<Rightarrow> copy1
              | Some author_title \<Rightarrow>
                  copy1(''author_title'' \<mapsto> PStr (strip (get_text author_title))))
      | None \<Rightarrow>
          (case find_first (tag_class [''div''] ''article__byline'') article_container of
             None \<Rightarrow> article_info_copy
           | Some byline_element \<Rightarrow>
               article_info_copy(''author'' \<mapsto> PStr (strip (get_text byline_element)))))"

definition mfd_date :: "node \<Rightarrow> pydict \<Rightarrow> pydict" where
  "mfd_date article_container article_info_copy =
     (case or_else (find_first (tag_class [''div''] ''date'') article_container)
                   (find_first (tag_class [''span''] ''published-info'') article_container) of
        None \<Rightarrow> article_info_copy
      | Some date_element \<Rightarrow>
          article_info_copy(''date'' \<mapsto> PStr (strip (get_text date_element))))"

text \<open>
  The categories of \<^verbatim>\<open>soup.find('div', class_='post-article-topics')\<close>: written
  whenever the page has topic links (the comment in the source: "Only update if we found
  categories").
\<close>

definition mfd_topics :: "node \<Rightarrow> string list" where
  "mfd_topics soup =
     (case find_first (tag_class [''div''] ''post-article-topics'') soup of
        None \<Rightarrow> []
      | Some categories_div \<Rightarrow>
          map (\<lambda>l. rstrip_chars '','' (strip (get_text l)))
            (find_all (tag_class [''a''] ''topic'') categories_div))"

definition mfd_categories :: "node \<Rightarrow> pydict \<Rightarrow> pydict" where
  "mfd_categories soup article_info_copy =
     (let categories = mfd_topics soup
      in if categories \<noteq> [] then article_info_copy(''categories'' \<mapsto> PList categories)
         else article_info_copy)"

text \<open>
  The article body inside the container, with the embedded ads and widgets removed
  (\<^verbatim>\<open>lambda c: c and ('ad' in c or 'widget' in c or 'hybrid-ad' in c)\<close>).
\<close>

definition ad_or_widget :: "string option \<Rightarrow> bool" where
  "ad_or_widget c =
     (case c of
        None \<Rightarrow> False
      | Some s \<Rightarrow> s \<noteq> [] \<and> (str_contains ''ad'' s \<or> str_contains ''widget'' s
                             \<or> str_contains ''hybrid-ad'' s))"

definition ad_or_hybrid :: "string option \<Rightarrow> bool" where
  "ad_or_hybrid c =
     (case c of
        None \<Rightarrow> False
      | Some s \<Rightarrow> s \<noteq> [] \<and> (str_contains ''ad'' s \<or> str_contains ''hybrid'' s))"

definition mfd_is_ad :: "node \<Rightarrow> bool" where
  "mfd_is_ad t = (is_tag [''div'', ''aside''] t \<and> attr_fn ''class'' ad_or_widget t)"

definition mfd_container_filter :: "node \<Rightarrow> node \<Rightarrow> bool" where
  "mfd_container_filter soup =
     (case find_first (tag_class [''article''] ''brief'') soup of
        None \<Rightarrow> is_tag [''article'']
      | Some x \<Rightarrow> tag_class [''article''] ''brief'')"

definition mfd_container_body :: "node \<Rightarrow> node \<Rightarrow> node \<times> string" where
  "mfd_container_body soup article_container =
     (case find_first (tag_class [''div''] ''article-body'') article_container of
        None \<Rightarrow> (soup, [])
      | Some body \<Rightarrow>
          (update_below (mfd_container_filter soup)
             (update_below (tag_class [''div''] ''article-body'') (decompose_all mfd_is_ad)) soup,
           paragraphs_text (decompose_all mfd_is_ad body)))"

text \<open>The alternative selectors, tried while the content is empty.\<close>

definition mfd_article_body :: "node \<Rightarrow> node \<times> string" where
  "mfd_article_body soup =
     (case find_first (tag_class [''div''] ''article-body'') soup of
        None \<Rightarrow> (soup, [])
      | Some article_body \<Rightarrow>
          (update_below (tag_class [''div''] ''article-body'')
             (decompose_all (\<lambda>t. is_tag [''div''] t \<and> attr_fn ''class'' ad_or_hybrid t)) soup,
           paragraphs_text
             (decompose_all (\<lambda>t. is_tag [''div''] t \<and> attr_fn ''class'' ad_or_hybrid t)
                article_body)))"

definition mfd_main_content :: "node \<Rightarrow> node \<times> string" where
  "mfd_main_content soup =
     (case find_first (is_tag [''main'']) soup of
        None \<Rightarrow> (soup, [])
      | Some main_content \<Rightarrow>
          (update_below (is_tag [''main''])
             (decompose_all (is_tag [''header'', ''nav'', ''aside''])) soup,
           paragraphs_text (decompose_all (is_tag [''header'', ''nav'', ''aside'']) main_content)))"

definition MultifamilydiveScraper_resolve :: "node \<Rightarrow> pydict \<Rightarrow> pydict" where
  "MultifamilydiveScraper_resolve soup0 article_info =
     (let article_info_copy = article_info;
          (article_info_copy, soup, content) =
            (case mfd_article_container soup0 of
               None \<Rightarrow> (article_info_copy, soup0, [])
             | Some article_container \<Rightarrow>
                 (let copy1 = mfd_author article_container article_info_copy;
                      copy2 = mfd_date article_container copy1;
                      copy3 = mfd_categories soup0 copy2;
                      (soup1, content1) = mfd_container_body soup0 article_container
                  in (copy3, soup1, content1)));
          (soup, content) = (if content = [] then mfd_article_body soup else (soup, content));
          content =
            (if content = []
             then (let (soup, content) = mfd_main_content soup
                   in if content = [] then body_paragraphs soup else content)
             else content)
      in article_info_copy(''content'' \<mapsto> PStr content))"

definition MultifamilydiveScraper_parse_article_content ::
  "(string \<Rightarrow> exn + node) \<Rightarrow> string \<Rightarrow> pydict \<Rightarrow> exn + pydict" where
  "MultifamilydiveScraper_parse_article_content BeautifulSoup html_content article_info =
     (case BeautifulSoup html_content of
        Inl e \<Rightarrow> Inr (article_info(''content'' \<mapsto> PStr []))
      | Inr soup \<Rightarrow> Inr (MultifamilydiveScraper_resolve soup article_info))"

subsection \<open>\<^verbatim>\<open>MultihousingScraper.parse_brief_content\<close>\<close>

text \<open>
  The metadata of the element \<^verbatim>\<open>div#cmw_main_content\<close>. Each assignment is to
  \<^verbatim>\<open>brief_info\<close> itself, the dictionary the caller passed, and is guarded by
  \<^verbatim>\<open>not brief_info.get(...)\<close>.
\<close>

definition multihousing_metadata :: "node \<Rightarrow> pydict \<Rightarrow> pydict" where
  "multihousing_metadata main_content brief_info0 =
     (let brief_info =
            (if \<not> truthy (dict_get_none brief_info0 ''title'')
             then (case find_first (tag_class [''h1''] ''fl-heading'') main_content of
                     None \<Rightarrow> brief_info0
                   | Some title_element \<Rightarrow>
                       brief_info0(''title'' \<mapsto> PStr (strip (get_text title_element))))
             else brief_info0);
          brief_info =
            (if \<not> truthy (dict_get_none brief_info ''author'')
             then (case find_first (tag_class [''a''] ''tdb-author-name'') main_content of
                     None \<Rightarrow> brief_info
                   | Some author_element \<Rightarrow>
                       brief_info(''author'' \<mapsto> PStr (strip (get_text author_element))))
             else brief_info);
          brief_info =
            (if \<not> truthy (dict_get_none brief_info ''date'')
             then (case find_first (tag_class [''span''] ''fl-post-info-date'') main_content of
                     None \<Rightarrow> brief_info
                   | Some date_element \<Rightarrow>
                       brief_info(''date'' \<mapsto> PStr (strip (get_text date_element))))
             else brief_info)
      in case find_first (tag_class [''div''] ''post_categories'') main_content of
           None \<Rightarrow> brief_info
         | Some categories_element \<Rightarrow>
             (if \<not> truthy (dict_get_none brief_info ''categories'')
              then brief_info(''categories'' \<mapsto>
                     PList (map (\<lambda>cat. strip (get_text cat))
                              (find_all (tag_class [''a''] ''post_cat'') categories_element)))
              else brief_info))"

text \<open>
  The content of \<^verbatim>\<open>div#cmw_main_content\<close>: the non-empty stripped paragraphs of the
  post content element, if any, and of every rich-text section.
\<close>

definition multihousing_main_text :: "node \<Rightarrow> string" where
  "multihousing_main_text main_content =
     (let content_elements =
            (case find_first (tag_class [''div''] ''cmw_single_post_content'') main_content of
               None \<Rightarrow> []
             | Some post_content \<Rightarrow> [post_content])
            @ find_all (tag_class [''div''] ''fl-rich-text'') main_content;
          paragraphs =
            concat (map (\<lambda>element.
                      filter (\<lambda>t. t \<noteq> [])
                        (map (\<lambda>p. strip (get_text p)) (find_all (is_tag [''p'']) element)))
                    content_elements)
      in if paragraphs \<noteq> [] then str_join '' '' paragraphs else [])"

text \<open>
  The method returns a copy of \<^verbatim>\<open>brief_info\<close> taken after the metadata was written.
  The model returns the caller's dictionary as the call leaves it, and the returned copy.
\<close>

definition MultihousingScraper_resolve :: "node \<Rightarrow> pydict \<Rightarrow> pydict \<times> pydict" where
  "MultihousingScraper_resolve soup brief_info0 =
     (let (brief_info, content) =
            (case find_first (tag_id [''div''] ''cmw_main_content'') soup of
               None \<Rightarrow> (brief_info0, [])
             | Some main_content \<Rightarrow>
                 (multihousing_metadata main_content brief_info0,
                  multihousing_main_text main_content));
          content = (if content = [] then body_paragraphs soup else content)
      in (brief_info, brief_info(''content'' \<mapsto> PStr content)))"

definition MultihousingScraper_parse_brief_content ::
  "(string \<Rightarrow> exn + node) \<Rightarrow> string \<Rightarrow> pydict \<Rightarrow> exn + (pydict \<times> pydict)" where
  "MultihousingScraper_parse_brief_content BeautifulSoup html_content brief_info =
     (case BeautifulSoup html_content of
        Inl e \<Rightarrow> Inr (brief_info, brief_info(''content'' \<mapsto> PStr []))
      | Inr soup \<Rightarrow> Inr (MultihousingScraper_resolve soup brief_info))"

section \<open>Categories as stored text\<close>

text \<open>
  \<^verbatim>\<open>categories = ','.join(article.get('categories', []))\<close>
  (\<^verbatim>\<open>db_connector.py\<close>, first statement of every \<^verbatim>\<open>insert_*_article\<close>).
\<close>

definition categories_text :: "pydict \<Rightarrow> exn + string" where
  "categories_text article = py_join '','' (dict_get article ''categories'' (PList []))"



section \<open>The relational store behind \<^verbatim>\<open>DatabaseConnector\<close>\<close>

text \<open>
  The table \<^verbatim>\<open>multifamilydive_articles\<close> as \<^verbatim>\<open>create_multifamilydive_table\<close> declares it:
  a \<^verbatim>\<open>SERIAL\<close> key, nine text columns of which \<^verbatim>\<open>title\<close> and \<^verbatim>\<open>link\<close> are
  \<^verbatim>\<open>NOT NULL\<close> and \<^verbatim>\<open>link\<close> is \<^verbatim>\<open>UNIQUE\<close>, and a creation timestamp. A cell of
  a text column is \<^verbatim>\<open>NULL\<close> or a text.
\<close>

datatype sqlval = SqlNull | SqlText string

text \<open>
  The driver and the engine are outside the repository. What the insert depends on is
  taken as a parameter, one value for each of their behaviours:
  \<^item> \<open>driver_error\<close>: the exception, if any, that the driver raises while it adapts the
    parameter tuple of a statement, before anything is sent (a string that holds a NUL
    character is refused this way);
  \<^item> \<open>array_out\<close>: the text the engine writes into a text column for a list, which the
    driver sends as an array;
  \<^item> \<open>engine_error\<close>: the exception, if any, that the engine raises for the nine values
    of a proposed row, apart from the declared \<^verbatim>\<open>NOT NULL\<close> constraints (a link too
    long for an entry of the unique index is refused this way).
\<close>

record backend =
  driver_error :: "pyval list \<Rightarrow> exn option"
  array_out :: "string list \<Rightarrow> string"
  engine_error :: "sqlval list \<Rightarrow> exn option"

text \<open>A query parameter as it reaches a text column.\<close>

fun adapt :: "backend \<Rightarrow> pyval \<Rightarrow> sqlval" where
  "adapt b PNone = SqlNull"
| "adapt b (PStr s) = SqlText s"
| "adapt b (PList xs) = SqlText (array_out b xs)"

record row =
  row_id :: nat
  col_title :: sqlval
  col_link :: sqlval
  col_summary :: sqlval
  col_author :: sqlval
  col_author_title :: sqlval
  col_date :: sqlval
  col_categories :: sqlval
  col_content :: sqlval
  col_source :: sqlval
  created_at :: nat

text \<open>The nine values a statement writes, in the order of its column list.\<close>

definition row_values :: "row \<Rightarrow> sqlval list" where
  "row_values r =
     [col_title r, col_link r, col_summary r, col_author r, col_author_title r,
      col_date r, col_categories r, col_content r, col_source r]"

text \<open>
  An open connection: the rows as of the last commit, the rows as the running
  transaction sees them, and the last value handed out by the key's sequence (which no
  rollback takes back).
\<close>

record connection =
  committed :: "row list"
  working :: "row list"
  id_seq :: nat

definition commit :: "connection \<Rightarrow> connection" where
  "commit c = c\<lparr>committed := working c\<rparr>"

definition rollback :: "connection \<Rightarrow> connection" where
  "rollback c = c\<lparr>working := committed c\<rparr>"

text \<open>
  \<^verbatim>\<open>ON CONFLICT (link) DO UPDATE SET title = EXCLUDED.title, ...\<close>: the eight listed
  columns are taken from the proposed row; \<^verbatim>\<open>id\<close>, \<^verbatim>\<open>link\<close> and \<^verbatim>\<open>created_at\<close>
  are not in the list.
\<close>

definition do_update :: "row \<Rightarrow> row \<Rightarrow> row" where
  "do_update excluded r =
     r\<lparr>col_title := col_title excluded,
       col_summary := col_summary excluded,
       col_author := col_author excluded,
       col_author_title := col_author_title excluded,
       col_date := col_date excluded,
       col_categories := col_categories excluded,
       col_content := col_content excluded,
       col_source := col_source excluded\<rparr>"

text \<open>
  \<^verbatim>\<open>cursor.execute(insert_query, params)\<close> at server time \<open>now\<close>. The driver adapts
  the parameters and may raise; then nothing has been sent. Otherwise the proposed row
  takes its key from the sequence and its timestamp from the clock. A \<^verbatim>\<open>NULL\<close> title
  or link violates \<^verbatim>\<open>NOT NULL\<close> and raises, and the engine may refuse the values for
  a reason of its own. Otherwise the row is appended, or, when a row with that link
  exists, that row is updated in place.
\<close>

definition execute_insert ::
  "backend \<Rightarrow> nat \<Rightarrow> pyval \<Rightarrow> pyval \<Rightarrow> pyval \<Rightarrow> pyval \<Rightarrow> pyval \<Rightarrow> pyval \<Rightarrow> pyval \<Rightarrow> pyval
     \<Rightarrow> pyval \<Rightarrow> connection \<Rightarrow> exn option \<times> connection" where
  "execute_insert b now p_title p_link p_summary p_author p_author_title p_date p_categories
       p_content p_source c =
     (case driver_error b [p_title, p_link, p_summary, p_author, p_author_title, p_date,
                           p_categories, p_content, p_source] of
        Some e \<Rightarrow> (Some e, c)
      | None \<Rightarrow>
          (let c1 = c\<lparr>id_seq := id_seq c + 1\<rparr>;
               excluded = \<lparr>row_id = id_seq c1, col_title = adapt b p_title,
                           col_link = adapt b p_link, col_summary = adapt b p_summary,
                           col_author = adapt b p_author,
                           col_author_title = adapt b p_author_title,
                           col_date = adapt b p_date,
                           col_categories = adapt b p_categories,
                           col_content = adapt b p_content,
                           col_source = adapt b p_source, created_at = now\<rparr>
           in if col_title excluded = SqlNull then (Some (IntegrityError ''title''), c1)
              else if col_link excluded = SqlNull then (Some (IntegrityError ''link''), c1)
              else (case engine_error b (row_values excluded) of
                      Some e \<Rightarrow> (Some e, c1)
                    | None \<Rightarrow>
                        (if col_link excluded \<in> set (map col_link (working c1))
                         then (None, c1\<lparr>working :=
                                 map (\<lambda>r. if col_link r = col_link excluded
                                          then do_update excluded r else r)
                                   (working c1)\<rparr>)
                         else (None, c1\<lparr>working := working c1 @ [excluded]\<rparr>)))))"

text \<open>The connector object: \<^verbatim>\<open>self.conn\<close> is \<^verbatim>\<open>None\<close> until \<^verbatim>\<open>connect()\<close> succeeds.\<close>

record DatabaseConnector =
  conn :: "connection option"

text \<open>
  \<^verbatim>\<open>insert_multifamilydive_article(self, article)\<close>. Inside \<^verbatim>\<open>try\<close>: join the
  categories, execute the insert, commit, return \<^verbatim>\<open>True\<close>. The handler prints, rolls
  back and returns \<^verbatim>\<open>False\<close>, whatever was raised. Without a connection the
  \<^verbatim>\<open>try\<close> block raises on \<^verbatim>\<open>None\<close> and so does the handler's
  \<^verbatim>\<open>self.conn.rollback()\<close>, which reaches the caller.
\<close>

definition insert_multifamilydive_article ::
  "backend \<Rightarrow> nat \<Rightarrow> pydict \<Rightarrow> DatabaseConnector \<Rightarrow> exn + (bool \<times> DatabaseConnector)" where
  "insert_multifamilydive_article b now article self =
     (case conn self of
        None \<Rightarrow> Inl AttributeError
      | Some c \<Rightarrow>
          (case categories_text article of
             Inl e \<Rightarrow> Inr (False, self\<lparr>conn := Some (rollback c)\<rparr>)
           | Inr categories \<Rightarrow>
               (case execute_insert b now
                       (dict_get article ''title'' (PStr []))
                       (dict_get article ''link'' (PStr []))
                       (dict_get article ''summary'' (PStr []))
                       (dict_get article ''author'' (PStr []))
                       (dict_get article ''author_title'' (PStr []))
                       (dict_get article ''date'' (PStr []))
                       (PStr categories)
                       (dict_get article ''content'' (PStr []))
                       (dict_get article ''source'' (PStr ''multifamilydive''))
                       c of
                  (Some e, c') \<Rightarrow> Inr (False, self\<lparr>conn := Some (rollback c')\<rparr>)
                | (None, c') \<Rightarrow> Inr (True, self\<lparr>conn := Some (commit c')\<rparr>))))"



text \<open>The parameter tuple \<^verbatim>\<open>insert_multifamilydive_article\<close> passes for an article.\<close>

definition py_params :: "pydict \<Rightarrow> string \<Rightarrow> pyval list" where
  "py_params article categories =
     [dict_get article ''title'' (PStr []),
      dict_get article ''link'' (PStr []),
      dict_get article ''summary'' (PStr []),
      dict_get article ''author'' (PStr []),
      dict_get article ''author_title'' (PStr []),
      dict_get article ''date'' (PStr []),
      PStr categories,
      dict_get article ''content'' (PStr []),
      dict_get article ''source'' (PStr ''multifamilydive'')]"

text \<open>
  The records a backend accepts: the categories can be joined, the driver adapts the
  parameters, neither title nor link is \<^verbatim>\<open>None\<close>, and the engine does not refuse the
  values.
\<close>

definition storable :: "backend \<Rightarrow> pydict \<Rightarrow> bool" where
  "storable b article =
     (case categories_text article of
        Inl e \<Rightarrow> False
      | Inr categories \<Rightarrow>
          driver_error b (py_params article categories) = None
          \<and> dict_get article ''title'' (PStr []) \<noteq> PNone
          \<and> dict_get article ''link'' (PStr []) \<noteq> PNone
          \<and> engine_error b (map (adapt b) (py_params article categories)) = None)"

text \<open>
  A connection between two calls of the connector: no transaction is open, and the
  \<^verbatim>\<open>UNIQUE\<close> constraint on \<^verbatim>\<open>link\<close> holds.
\<close>

definition at_rest :: "connection \<Rightarrow> bool" where
  "at_rest c = (working c = committed c \<and> distinct (map col_link (committed c)))"

text \<open>The rows a connector's store holds for a link.\<close>

definition rows_for :: "sqlval \<Rightarrow> DatabaseConnector \<Rightarrow> row list" where
  "rows_for l self =
     (case conn self of None \<Rightarrow> [] | Some c \<Rightarrow> filter (\<lambda>r. col_link r = l) (committed c))"

text \<open>
  Sample inputs. A backend whose driver refuses strings that hold a NUL character, whose
  engine refuses a link of more than 255 characters, and which writes an array the way
  the engine does for elements that need no quoting; a connected store with an empty
  table; some articles.
\<close>

fun has_nul :: "pyval \<Rightarrow> bool" where
  "has_nul PNone = False"
| "has_nul (PStr s) = (CHR 0x00 \<in> set s)"
| "has_nul (PList xs) = list_ex (\<lambda>s. CHR 0x00 \<in> set s) xs"

fun long_link :: "sqlval list \<Rightarrow> bool" where
  "long_link (t # SqlText l # vs) = (length l > 255)"
| "long_link vs = False"

definition sample_backend :: backend where
  "sample_backend =
     \<lparr>driver_error = (\<lambda>ps. if list_ex has_nul ps then Some ValueError else None),
      array_out = (\<lambda>xs. ''{'' @ str_join '','' xs @ ''}''),
      engine_error = (\<lambda>vs. if long_link vs then Some (IntegrityError ''index'') else None)\<rparr>"

definition empty_store :: DatabaseConnector where
  "empty_store = \<lparr>conn = Some \<lparr>committed = [], working = [], id_seq = 0\<rparr>\<rparr>"

definition article_a :: pydict where
  "article_a = [''link'' \<mapsto> PStr ''https://x/a'', ''title'' \<mapsto> PStr ''First'',
     ''categories'' \<mapsto> PList [''Finance'', ''Policy'']]"

definition article_a2 :: pydict where
  "article_a2 = [''link'' \<mapsto> PStr ''https://x/a'', ''title'' \<mapsto> PStr ''Second'',
     ''content'' \<mapsto> PStr ''body'', ''categories'' \<mapsto> PList [''Deals'']]"


definition article_bad :: pydict where
  "article_bad = [''link'' \<mapsto> PStr ''l3'', ''title'' \<mapsto> PNone]"


definition article_nul :: pydict where
  "article_nul = [''link'' \<mapsto> PStr ''l6'', ''title'' \<mapsto> PStr [CHR ''a'', CHR 0x00, CHR ''b'']]"

section \<open>Sample pages\<close>

text \<open>Small trees for the worked examples: a class attribute, a paragraph, a page.\<close>

definition cls :: "string \<Rightarrow> (string \<times> pyval) list" where
  "cls c = [(''class'', PList [c])]"

definition para :: "string \<Rightarrow> node" where
  "para s = Tag ''p'' [] [NavigableString s]"

definition page :: "node list \<Rightarrow> node" where
  "page body = Tag ''[document]'' [] [Tag ''html'' [] [Tag ''body'' [] body]]"

definition detail_page :: node where
  "detail_page = page
     [Tag ''div'' (cls ''c-article__content'') [para '' Rates fell. ''],
      para ''A closing paragraph that is longer than forty characters.'']"


definition multihousing_page :: node where
  "multihousing_page = page
     [Tag ''div'' [(''id'', PStr ''cmw_main_content'')]
        [Tag ''a'' (cls ''tdb-author-name'') [NavigableString ''Jane Doe''],
         Tag ''div'' (cls ''cmw_single_post_content'') [para ''Body text.'']]]"

definition listed_without_author :: pydict where
  "listed_without_author =
     [''link'' \<mapsto> PStr ''https://x/a'', ''title'' \<mapsto> PStr ''T'', ''author'' \<mapsto> PStr []]"

definition multifamilydive_page :: node where
  "multifamilydive_page = page
     [Tag ''article'' (cls ''brief'')
        [Tag ''div'' (cls ''date'') [NavigableString ''Nov. 3, 2026''],
         Tag ''div'' (cls ''post-article-topics'')
           [Tag ''a'' (cls ''topic'') [NavigableString ''Policy,'']],
         Tag ''div'' (cls ''article-body'') [para ''Body text.'']]]"

definition combined_page :: node where
  "combined_page = page
     [Tag ''div'' [(''id'', PStr ''cmw_main_content'')]
        [Tag ''a'' (cls ''tdb-author-name'') [NavigableString ''Jane Doe''],
         Tag ''div'' (cls ''cmw_single_post_content'') [para ''Body text.'']],
      Tag ''article'' (cls ''brief'')
        [Tag ''div'' (cls ''post-article-topics'')
           [Tag ''a'' (cls ''topic'') [NavigableString ''Policy,'']],
         Tag ''div'' (cls ''article-body'') [para ''Body text.'']]]"

definition listed_with_author_and_category :: pydict where
  "listed_with_author_and_category =
     [''link'' \<mapsto> PStr ''https://x/a'', ''author'' \<mapsto> PStr ''Listing Author'',
      ''categories'' \<mapsto> PList [''Finance'']]"

definition listed_with_category :: pydict where
  "listed_with_category =
     [''link'' \<mapsto> PStr ''https://x/a'', ''title'' \<mapsto> PStr ''T'',
      ''date'' \<mapsto> PStr ''yesterday'', ''categories'' \<mapsto> PList [''Finance'']]"

definition anchor_to :: "string \<Rightarrow> string \<Rightarrow> node" where
  "anchor_to href label = Tag ''a'' [(''href'', PStr href)] [NavigableString label]"

definition credaily_listing :: node where
  "credaily_listing = page
     [Tag ''div'' (cls ''c-brief-list__item'') [para ''Sponsored''],
      Tag ''div'' (cls ''c-brief-list__item'')
        [Tag ''h5'' (cls ''c-brief-list__item-title'') [anchor_to ''/briefs/b'' '' Rents rise '']]]"






definition credaily_listing_without_href :: node where
  "credaily_listing_without_href = page
     [Tag ''div'' (cls ''c-brief-list__item'')
        [Tag ''h5'' (cls ''c-brief-list__item-title'') [anchor_to ''/briefs/b'' ''Rents rise'']],
      Tag ''div'' (cls ''c-brief-list__item'')
        [Tag ''h5'' (cls ''c-brief-list__item-title'') [Tag ''a'' [] [NavigableString ''Untitled'']]]]"

section \<open>Properties of the category encoding\<close>







section \<open>Properties of the store\<close>

lemma filter_absent:
  "l \<notin> set (map col_link rs) \<Longrightarrow> filter (\<lambda>x. col_link x = l) rs = []"
  by (induction rs) auto

lemma filter_link_unique:
  "distinct (map col_link rs) \<Longrightarrow> r \<in> set rs \<Longrightarrow> filter (\<lambda>x. col_link x = col_link r) rs = [r]"
proof (induction rs)
  case Nil
  then show ?case by simp
next
  case (Cons a rs)
  show ?case
  proof (cases "a = r")
    case True
    from Cons.prems(1) True have "col_link r \<notin> set (map col_link rs)" by simp
    then have "filter (\<lambda>x. col_link x = col_link r) rs = []" by (rule filter_absent)
    with True show ?thesis by simp
  next
    case False
    with Cons.prems have "r \<in> set rs" by simp
    moreover from this Cons.prems(1) have "col_link a \<noteq> col_link r" by auto
    ultimately show ?thesis using Cons by simp
  qed
qed

lemma filter_link_present:
  assumes "distinct (map col_link rs)" and "l \<in> set (map col_link rs)"
  shows "\<exists>r. filter (\<lambda>x. col_link x = l) rs = [r]"
proof -
  from assms(2) obtain r where "r \<in> set rs" "col_link r = l" by auto
  with filter_link_unique [OF assms(1), of r] show ?thesis by auto
qed

lemma do_update_link: "col_link (do_update e r) = col_link r"
  by (simp add: do_update_def)

lemma do_update_keeps:
  "row_id (do_update e r) = row_id r" "created_at (do_update e r) = created_at r"
  by (simp_all add: do_update_def)

lemma do_update_takes:
  "col_title (do_update e r) = col_title e"
  "col_summary (do_update e r) = col_summary e"
  "col_author (do_update e r) = col_author e"
  "col_author_title (do_update e r) = col_author_title e"
  "col_date (do_update e r) = col_date e"
  "col_categories (do_update e r) = col_categories e"
  "col_content (do_update e r) = col_content e"
  "col_source (do_update e r) = col_source e"
  by (simp_all add: do_update_def)

lemma map_update_links:
  "map (col_link \<circ> (\<lambda>r. if col_link r = l then do_update e r else r)) rs = map col_link rs"
  by (induction rs) (auto simp: do_update_link)

lemma filter_map_update:
  "filter (\<lambda>x. col_link x = l) (map (\<lambda>r. if col_link r = l then do_update e r else r) rs)
   = map (do_update e) (filter (\<lambda>x. col_link x = l) rs)"
  by (induction rs) (auto simp: do_update_link)

lemma execute_insert_accepts:
  assumes "driver_error b [pt, pl, ps, pa, pat, pd, pc, pco, pso] = None"
    and "adapt b pt \<noteq> SqlNull" and "adapt b pl \<noteq> SqlNull"
    and "engine_error b (map (adapt b) [pt, pl, ps, pa, pat, pd, pc, pco, pso]) = None"
    and "distinct (map col_link (working c))"
  shows "\<exists>c' r. execute_insert b now pt pl ps pa pat pd pc pco pso c = (None, c')
     \<and> committed c' = committed c
     \<and> distinct (map col_link (working c'))
     \<and> filter (\<lambda>x. col_link x = adapt b pl) (working c') = [r]
     \<and> row_values r = map (adapt b) [pt, pl, ps, pa, pat, pd, pc, pco, pso]
     \<and> set (map col_link (working c)) \<subseteq> set (map col_link (working c'))
     \<and> (\<forall>old. filter (\<lambda>x. col_link x = adapt b pl) (working c) = [old]
            \<longrightarrow> row_id r = row_id old \<and> created_at r = created_at old)"
proof -
  define excluded where "excluded = \<lparr>row_id = id_seq c + 1, col_title = adapt b pt,
      col_link = adapt b pl, col_summary = adapt b ps, col_author = adapt b pa,
      col_author_title = adapt b pat, col_date = adapt b pd, col_categories = adapt b pc,
      col_content = adapt b pco, col_source = adapt b pso, created_at = now\<rparr>"
  have rv: "row_values excluded = map (adapt b) [pt, pl, ps, pa, pat, pd, pc, pco, pso]"
    by (simp add: row_values_def excluded_def)
  have lk: "col_link excluded = adapt b pl" by (simp add: excluded_def)
  have run: "execute_insert b now pt pl ps pa pat pd pc pco pso c =
      (if adapt b pl \<in> set (map col_link (working c))
       then (None, c\<lparr>id_seq := id_seq c + 1, working :=
               map (\<lambda>r. if col_link r = adapt b pl then do_update excluded r else r)
                 (working c)\<rparr>)
       else (None, c\<lparr>id_seq := id_seq c + 1, working := working c @ [excluded]\<rparr>))"
    using assms(1,2,3,4)
    by (simp add: execute_insert_def Let_def row_values_def excluded_def)
  show ?thesis
  proof (cases "adapt b pl \<in> set (map col_link (working c))")
    case True
    define rs' where "rs' =
      map (\<lambda>r. if col_link r = adapt b pl then do_update excluded r else r) (working c)"
    from True filter_link_present [OF assms(5)] obtain old where
      old: "filter (\<lambda>x. col_link x = adapt b pl) (working c) = [old]" by blast
    have links: "map col_link rs' = map col_link (working c)"
      unfolding rs'_def using map_update_links [of "adapt b pl" excluded "working c"] by simp
    have new: "filter (\<lambda>x. col_link x = adapt b pl) rs' = [do_update excluded old]"
      unfolding rs'_def by (simp add: filter_map_update old)
    have "old \<in> set (filter (\<lambda>x. col_link x = adapt b pl) (working c))" using old by simp
    then have "col_link old = adapt b pl" by simp
    then have car: "row_values (do_update excluded old)
        = map (adapt b) [pt, pl, ps, pa, pat, pd, pc, pco, pso]"
      by (simp add: row_values_def do_update_link do_update_takes excluded_def)
    have ex: "execute_insert b now pt pl ps pa pat pd pc pco pso c
        = (None, c\<lparr>id_seq := id_seq c + 1, working := rs'\<rparr>)"
      using True run by (simp add: rs'_def)
    have "distinct (map col_link rs')" using links assms(5) by simp
    moreover have "set (map col_link (working c)) \<subseteq> set (map col_link rs')"
      using links by simp
    ultimately show ?thesis
      using ex new car old by (simp add: do_update_keeps)
  next
    case False
    then have ex: "execute_insert b now pt pl ps pa pat pd pc pco pso c
        = (None, c\<lparr>id_seq := id_seq c + 1, working := working c @ [excluded]\<rparr>)"
      using run by simp
    have none: "filter (\<lambda>x. col_link x = adapt b pl) (working c) = []"
      using False by (rule filter_absent)
    have "distinct (map col_link (working c @ [excluded]))"
      using False assms(5) lk by simp
    moreover have "filter (\<lambda>x. col_link x = adapt b pl) (working c @ [excluded]) = [excluded]"
      using none lk by simp
    ultimately show ?thesis
      using ex rv none by auto
  qed
qed


lemma adapt_eq_Null: "adapt b v = SqlNull \<longleftrightarrow> v = PNone"
  by (cases v) auto

lemma insert_storable:
  assumes "conn self = Some c" "at_rest c" "storable b a"
  shows "\<exists>c' r cats. insert_multifamilydive_article b now a self
         = Inr (True, self\<lparr>conn := Some c'\<rparr>)
     \<and> at_rest c'
     \<and> categories_text a = Inr cats
     \<and> filter (\<lambda>x. col_link x = adapt b (dict_get a ''link'' (PStr []))) (committed c') = [r]
     \<and> row_values r = map (adapt b) (py_params a cats)
     \<and> set (map col_link (committed c)) \<subseteq> set (map col_link (committed c'))
     \<and> (\<forall>old. filter (\<lambda>x. col_link x = adapt b (dict_get a ''link'' (PStr []))) (committed c)
                 = [old]
            \<longrightarrow> row_id r = row_id old \<and> created_at r = created_at old)"
proof -
  from assms(3) obtain cats where cats: "categories_text a = Inr cats"
    by (auto simp: storable_def split: sum.splits)
  with assms(3) have ok:
      "driver_error b (py_params a cats) = None"
      "adapt b (dict_get a ''title'' (PStr [])) \<noteq> SqlNull"
      "adapt b (dict_get a ''link'' (PStr [])) \<noteq> SqlNull"
      "engine_error b (map (adapt b) (py_params a cats)) = None"
    by (simp_all add: storable_def adapt_eq_Null)
  from assms(2) have d: "distinct (map col_link (working c))" and w: "working c = committed c"
    by (simp_all add: at_rest_def)
  from execute_insert_accepts [OF ok [unfolded py_params_def] d, of now]
  obtain c' r where ex: "execute_insert b now
        (dict_get a ''title'' (PStr []))
        (dict_get a ''link'' (PStr []))
        (dict_get a ''summary'' (PStr []))
        (dict_get a ''author'' (PStr []))
        (dict_get a ''author_title'' (PStr []))
        (dict_get a ''date'' (PStr []))
        (PStr cats)
        (dict_get a ''content'' (PStr []))
        (dict_get a ''source'' (PStr ''multifamilydive'')) c = (None, c')"
    and c': "distinct (map col_link (working c'))"
      "filter (\<lambda>x. col_link x = adapt b (dict_get a ''link'' (PStr []))) (working c') = [r]"
      "row_values r = map (adapt b) (py_params a cats)"
      "set (map col_link (working c)) \<subseteq> set (map col_link (working c'))"
      "\<forall>old. filter (\<lambda>x. col_link x = adapt b (dict_get a ''link'' (PStr []))) (working c)
               = [old]
            \<longrightarrow> row_id r = row_id old \<and> created_at r = created_at old"
    unfolding py_params_def by blast
  have "insert_multifamilydive_article b now a self
      = Inr (True, self\<lparr>conn := Some (commit c')\<rparr>)"
    using assms(1) cats ex by (simp add: insert_multifamilydive_article_def)
  moreover have "at_rest (commit c')"
    using c'(1) by (simp add: at_rest_def commit_def)
  moreover have "committed (commit c') = working c'"
    by (simp add: commit_def)
  ultimately show ?thesis using cats c' w by auto
qed


text \<open>
  C1, as stated, fails for a record the store refuses: a record whose title is
  \<^verbatim>\<open>None\<close> violates \<^verbatim>\<open>NOT NULL\<close>, and on a backend whose driver refuses NUL
  characters so does a record whose title holds one. Each of the two upserts returns
  \<^verbatim>\<open>False\<close>, and afterwards the table has no row for the record's link.
\<close>

theorem upsert_refused_record_counterexample:
  "(case insert_multifamilydive_article sample_backend 5 article_bad empty_store of
      Inl e \<Rightarrow> None
    | Inr (ok1, self1) \<Rightarrow>
        (case insert_multifamilydive_article sample_backend 9 article_bad self1 of
           Inl e \<Rightarrow> None
         | Inr (ok2, self2) \<Rightarrow> Some (ok1, ok2, length (rows_for (SqlText ''l3'') self2))))
     = Some (False, False, 0)
   \<and> (case insert_multifamilydive_article sample_backend 5 article_nul empty_store of
      Inl e \<Rightarrow> None
    | Inr (ok1, self1) \<Rightarrow>
        (case insert_multifamilydive_article sample_backend 9 article_nul self1 of
           Inl e \<Rightarrow> None
         | Inr (ok2, self2) \<Rightarrow> Some (ok1, ok2, length (rows_for (SqlText ''l6'') self2))))
     = Some (False, False, 0)"
  by code_simp

text \<open>
  C1 (amended): whatever the backend, on a connected store at rest, upserting a record
  the backend accepts and then a record it accepts with the same link succeeds twice and
  leaves exactly one row for that link; the row's title, summary, author, author title, date,
  categories, content and source are the second record's values, and its key and
  creation timestamp are those the row had after the first upsert.
\<close>

theorem upsert_twice_one_row:
  assumes "conn self = Some c" and "at_rest c"
    and "storable b r1" and "storable b r2"
    and "dict_get r1 ''link'' (PStr []) = dict_get r2 ''link'' (PStr [])"
  shows "\<exists>self1 self2 row1 row2 cats.
      insert_multifamilydive_article b t1 r1 self = Inr (True, self1)
    \<and> insert_multifamilydive_article b t2 r2 self1 = Inr (True, self2)
    \<and> rows_for (adapt b (dict_get r2 ''link'' (PStr []))) self1 = [row1]
    \<and> rows_for (adapt b (dict_get r2 ''link'' (PStr []))) self2 = [row2]
    \<and> row_id row2 = row_id row1
    \<and> created_at row2 = created_at row1
    \<and> categories_text r2 = Inr cats
    \<and> col_title row2 = adapt b (dict_get r2 ''title'' (PStr []))
    \<and> col_summary row2 = adapt b (dict_get r2 ''summary'' (PStr []))
    \<and> col_author row2 = adapt b (dict_get r2 ''author'' (PStr []))
    \<and> col_author_title row2 = adapt b (dict_get r2 ''author_title'' (PStr []))
    \<and> col_date row2 = adapt b (dict_get r2 ''date'' (PStr []))
    \<and> col_categories row2 = SqlText cats
    \<and> col_content row2 = adapt b (dict_get r2 ''content'' (PStr []))
    \<and> col_source row2 = adapt b (dict_get r2 ''source'' (PStr ''multifamilydive''))"
proof -
  let ?l = "adapt b (dict_get r2 ''link'' (PStr []))"
  from insert_storable [OF assms(1,2,3), where now = t1] assms(5)
  obtain c1 row1 where
    s1: "insert_multifamilydive_article b t1 r1 self = Inr (True, self\<lparr>conn := Some c1\<rparr>)"
    and r1: "at_rest c1" "filter (\<lambda>x. col_link x = ?l) (committed c1) = [row1]"
    by auto
  have conn1: "conn (self\<lparr>conn := Some c1\<rparr>) = Some c1" by simp
  from insert_storable [OF conn1 r1(1) assms(4), where now = t2] r1(2)
  obtain c2 row2 cats where
    s2: "insert_multifamilydive_article b t2 r2 (self\<lparr>conn := Some c1\<rparr>)
           = Inr (True, self\<lparr>conn := Some c2\<rparr>)"
    and r2: "categories_text r2 = Inr cats"
      "filter (\<lambda>x. col_link x = ?l) (committed c2) = [row2]"
      "row_values row2 = map (adapt b) (py_params r2 cats)"
      "row_id row2 = row_id row1" "created_at row2 = created_at row1"
    by auto
  have "rows_for ?l (self\<lparr>conn := Some c1\<rparr>) = [row1]"
    using r1(2) by (simp add: rows_for_def)
  moreover have "rows_for ?l (self\<lparr>conn := Some c2\<rparr>) = [row2]"
    using r2(2) by (simp add: rows_for_def)
  ultimately show ?thesis
    using s1 s2 r2 by (simp add: row_values_def py_params_def)
qed


theorem upsert_twice_one_row_witness:
  "conn empty_store = Some \<lparr>committed = [], working = [], id_seq = 0\<rparr>
   \<and> at_rest \<lparr>committed = [], working = [], id_seq = 0\<rparr>
   \<and> storable sample_backend article_a \<and> storable sample_backend article_a2
   \<and> dict_get article_a ''link'' (PStr []) = dict_get article_a2 ''link'' (PStr [])
   \<and> (\<exists>self1 self2 row1 row2.
        insert_multifamilydive_article sample_backend 5 article_a empty_store = Inr (True, self1)
      \<and> insert_multifamilydive_article sample_backend 9 article_a2 self1 = Inr (True, self2)
      \<and> rows_for (SqlText ''https://x/a'') self1 = [row1]
      \<and> rows_for (SqlText ''https://x/a'') self2 = [row2]
      \<and> row_id row2 = row_id row1
      \<and> created_at row2 = created_at row1
      \<and> col_title row2 = SqlText ''Second''
      \<and> col_categories row2 = SqlText ''Deals''
      \<and> col_content row2 = SqlText ''body'')"
proof -
  have h: "conn empty_store = Some \<lparr>committed = [], working = [], id_seq = 0\<rparr>"
    "at_rest \<lparr>committed = [], working = [], id_seq = 0\<rparr>"
    by (simp_all add: empty_store_def at_rest_def)
  have s: "storable sample_backend article_a" "storable sample_backend article_a2"
    by code_simp+
  have l: "dict_get article_a ''link'' (PStr []) = dict_get article_a2 ''link'' (PStr [])"
    by (simp add: dict_get_def article_a_def article_a2_def)
  have v: "dict_get article_a2 ''link'' (PStr []) = PStr ''https://x/a''"
    "dict_get article_a2 ''title'' (PStr []) = PStr ''Second''"
    "dict_get article_a2 ''content'' (PStr []) = PStr ''body''"
    "categories_text article_a2 = Inr ''Deals''"
    by (simp_all add: dict_get_def article_a2_def categories_text_def)
  from upsert_twice_one_row [OF h s l, of 5 9] obtain self1 self2 row1 row2 cats where
    "insert_multifamilydive_article sample_backend 5 article_a empty_store = Inr (True, self1)"
    "insert_multifamilydive_article sample_backend 9 article_a2 self1 = Inr (True, self2)"
    "rows_for (adapt sample_backend (dict_get article_a2 ''link'' (PStr []))) self1 = [row1]"
    "rows_for (adapt sample_backend (dict_get article_a2 ''link'' (PStr []))) self2 = [row2]"
    "row_id row2 = row_id row1" "created_at row2 = created_at row1"
    "categories_text article_a2 = Inr cats"
    "col_title row2 = adapt sample_backend (dict_get article_a2 ''title'' (PStr []))"
    "col_categories row2 = SqlText cats"
    "col_content row2 = adapt sample_backend (dict_get article_a2 ''content'' (PStr []))"
    by blast
  with v h s l show ?thesis by (simp only: adapt.simps) (blast dest: sym)
qed



section \<open>Properties of the content resolvers\<close>

text \<open>
  C2: when the first selector of the credaily cascade, the element
  \<^verbatim>\<open>div.c-article__content\<close>, exists and its paragraphs give a non-empty text, the
  resolved content is exactly that text: the record returned is the input with
  \<^verbatim>\<open>content\<close> set to it, whatever the rest of the page holds. In the worked example
  the page also has a paragraph that only the last selector would take.
\<close>

theorem cascade_short_circuit:
  assumes "BeautifulSoup html_content = Inr soup"
    and "find_first (tag_class [''div''] ''c-article__content'') soup = Some content_element"
    and "find_all (is_tag [''p'']) content_element = paragraphs"
    and "paragraphs \<noteq> []"
    and "join_text paragraphs \<noteq> []"
  shows "CredailyScraper_parse_brief_content BeautifulSoup html_content brief_info
           = Inr (brief_info(''content'' \<mapsto> PStr (join_text paragraphs)))"
proof -
  have "credaily_article_content soup = join_text paragraphs"
    using assms(2,3,4) by (simp add: credaily_article_content_def paragraphs_text_def)
  with assms(5) have "CredailyScraper_resolve soup = join_text paragraphs"
    by (simp add: CredailyScraper_resolve_def)
  with assms(1) show ?thesis
    by (simp add: CredailyScraper_parse_brief_content_def)
qed

theorem cascade_short_circuit_witness:
  "find_first (tag_class [''div''] ''c-article__content'') detail_page
       = Some (Tag ''div'' (cls ''c-article__content'') [para '' Rates fell. ''])
   \<and> find_all (is_tag [''p'']) (Tag ''div'' (cls ''c-article__content'') [para '' Rates fell. ''])
       = [para '' Rates fell. '']
   \<and> join_text [para '' Rates fell. ''] = ''Rates fell.''
   \<and> body_paragraphs detail_page = ''A closing paragraph that is longer than forty characters.''
   \<and> CredailyScraper_parse_brief_content (\<lambda>h. Inr detail_page) ''<html>'' Map.empty
       = Inr [''content'' \<mapsto> PStr ''Rates fell.'']"
proof -
  have a: "find_first (tag_class [''div''] ''c-article__content'') detail_page
       = Some (Tag ''div'' (cls ''c-article__content'') [para '' Rates fell. ''])"
    by code_simp
  have b: "find_all (is_tag [''p'']) (Tag ''div'' (cls ''c-article__content'') [para '' Rates fell. ''])
       = [para '' Rates fell. '']"
    by code_simp
  have c: "join_text [para '' Rates fell. ''] = ''Rates fell.''"
    by code_simp
  have d: "body_paragraphs detail_page
       = ''A closing paragraph that is longer than forty characters.''"
    by code_simp
  from cascade_short_circuit [of "\<lambda>h. Inr detail_page" "''<html>''" detail_page
      "Tag ''div'' (cls ''c-article__content'') [para '' Rates fell. '']"
      "[para '' Rates fell. '']" Map.empty, OF refl a b]
  show ?thesis using a b c d by simp
qed






text \<open>
  C3 at a page of the multihousing site: the listing left the author empty, the detail
  page names one. After \<^verbatim>\<open>MultihousingScraper.parse_brief_content\<close> the dictionary
  the caller passed holds the detail page's author: the method wrote into its argument
  before it took the copy it returns.
\<close>

theorem multihousing_writes_to_input:
  "listed_without_author ''author'' = Some (PStr [])
   \<and> (case MultihousingScraper_parse_brief_content (\<lambda>h. Inr multihousing_page) ''<html>''
              listed_without_author of
         Inl e \<Rightarrow> None
       | Inr (brief_info, brief_info_copy) \<Rightarrow> brief_info ''author'') = Some (PStr ''Jane Doe'')"
  by code_simp

text \<open>
  C4, as stated, fails on the multifamilydive resolver: the listing gave the category
  Finance, the detail page lists the topic Policy, and the returned record carries
  Policy.
\<close>

theorem multifamilydive_overwrites_counterexample:
  "listed_with_category ''categories'' = Some (PList [''Finance''])
   \<and> (case MultifamilydiveScraper_parse_article_content (\<lambda>h. Inr multifamilydive_page) ''<html>''
              listed_with_category of
         Inl e \<Rightarrow> None
       | Inr r \<Rightarrow> r ''categories'') = Some (PList [''Policy''])"
  by code_simp

lemma dict_get_none_upd:
  "dict_get_none (m(k' \<mapsto> v)) k = (if k = k' then v else dict_get_none m k)"
  by (simp add: dict_get_none_def dict_get_def)

lemma multihousing_metadata_keeps:
  assumes "truthy (dict_get_none info k)"
  shows "multihousing_metadata main_content info k = info k"
proof -
  have t: "\<not> truthy (dict_get_none m k') \<Longrightarrow> truthy (dict_get_none m k) \<Longrightarrow> k \<noteq> k'" for m k'
    by auto
  define m1 where "m1 =
     (if \<not> truthy (dict_get_none info ''title'')
      then (case find_first (tag_class [''h1''] ''fl-heading'') main_content of
              None \<Rightarrow> info
            | Some title_element \<Rightarrow> info(''title'' \<mapsto> PStr (strip (get_text title_element))))
      else info)"
  define m2 where "m2 =
     (if \<not> truthy (dict_get_none m1 ''author'')
      then (case find_first (tag_class [''a''] ''tdb-author-name'') main_content of
              None \<Rightarrow> m1
            | Some author_element \<Rightarrow> m1(''author'' \<mapsto> PStr (strip (get_text author_element))))
      else m1)"
  define m3 where "m3 =
     (if \<not> truthy (dict_get_none m2 ''date'')
      then (case find_first (tag_class [''span''] ''fl-post-info-date'') main_content of
              None \<Rightarrow> m2
            | Some date_element \<Rightarrow> m2(''date'' \<mapsto> PStr (strip (get_text date_element))))
      else m2)"
  define m4 where "m4 =
     (case find_first (tag_class [''div''] ''post_categories'') main_content of
        None \<Rightarrow> m3
      | Some categories_element \<Rightarrow>
          (if \<not> truthy (dict_get_none m3 ''categories'')
           then m3(''categories'' \<mapsto>
                  PList (map (\<lambda>cat. strip (get_text cat))
                           (find_all (tag_class [''a''] ''post_cat'') categories_element)))
           else m3))"
  have r: "multihousing_metadata main_content info = m4"
    unfolding multihousing_metadata_def Let_def m4_def m3_def m2_def m1_def by (rule refl)
  have 1: "m1 k = info k \<and> truthy (dict_get_none m1 k)"
    using assms t [of info "''title''"]
    by (auto simp: m1_def dict_get_none_def dict_get_def split: option.splits)
  have 2: "m2 k = info k \<and> truthy (dict_get_none m2 k)"
    using 1 t [of m1 "''author''"]
    by (auto simp: m2_def dict_get_none_def dict_get_def split: option.splits)
  have 3: "m3 k = info k \<and> truthy (dict_get_none m3 k)"
    using 2 t [of m2 "''date''"]
    by (auto simp: m3_def dict_get_none_def dict_get_def split: option.splits)
  have 4: "m4 k = info k"
    using 3 t [of m3 "''categories''"]
    by (auto simp: m4_def dict_get_none_def dict_get_def split: option.splits)
  with r show ?thesis by simp
qed

lemma multihousing_resolve_keeps:
  assumes "truthy (dict_get_none info k)" and "k \<noteq> ''content''"
  shows "snd (MultihousingScraper_resolve soup info) k = info k"
  using assms
  by (auto simp: MultihousingScraper_resolve_def Let_def multihousing_metadata_keeps
      split: option.splits prod.splits)

lemma credaily_keeps:
  "k \<noteq> ''content'' \<Longrightarrow>
   \<exists>r. CredailyScraper_parse_brief_content BeautifulSoup html_content info = Inr r \<and> r k = info k"
  by (auto simp: CredailyScraper_parse_brief_content_def split: sum.splits)

lemma mfd_resolve_metadata:
  "\<exists>content. MultifamilydiveScraper_resolve soup info =
     (case mfd_article_container soup of
        None \<Rightarrow> info
      | Some ac \<Rightarrow> mfd_categories soup (mfd_date ac (mfd_author ac info)))
     (''content'' \<mapsto> PStr content)"
  by (auto simp: MultifamilydiveScraper_resolve_def Let_def split: option.splits prod.splits)

lemma mfd_categories_other: "k \<noteq> ''categories'' \<Longrightarrow> mfd_categories soup m k = m k"
  by (simp add: mfd_categories_def Let_def)

lemma mfd_date_other: "k \<noteq> ''date'' \<Longrightarrow> mfd_date ac m k = m k"
  by (simp add: mfd_date_def split: option.splits)

lemma mfd_author_other:
  "k \<noteq> ''author'' \<Longrightarrow> k \<noteq> ''author_title'' \<Longrightarrow> mfd_author ac m k = m k"
  by (simp add: mfd_author_def Let_def split: option.splits)

text \<open>
  C4 (amended): for every parsed detail page and every key other than \<^verbatim>\<open>content\<close>,
  the multihousing resolver returns the partial record's value wherever that value is
  non-empty (it writes title, author, date and categories only into empty fields), and
  the credaily resolver returns the partial record's value always (it takes no metadata
  from the detail page). The multifamilydive resolver, when the page has an article
  container, returns the topics, the date, the author and the author title it finds
  there, whether or not the partial record had values, and the partial record's value
  for what it does not find; without a container it returns the partial record's values.
\<close>

theorem detail_metadata_precedence:
  assumes "BeautifulSoup html_content = Inr soup" and "k \<noteq> ''content''"
  shows
    "(\<exists>d r. MultihousingScraper_parse_brief_content BeautifulSoup html_content info = Inr (d, r)
        \<and> (truthy (dict_get_none info k) \<longrightarrow> r k = info k))
   \<and> (\<exists>r. CredailyScraper_parse_brief_content BeautifulSoup html_content info = Inr r
        \<and> r k = info k)
   \<and> (\<exists>r. MultifamilydiveScraper_parse_article_content BeautifulSoup html_content info = Inr r
        \<and> (case mfd_article_container soup of
             None \<Rightarrow> r k = info k
           | Some ac \<Rightarrow>
               r ''categories'' =
                 (if mfd_topics soup \<noteq> [] then Some (PList (mfd_topics soup))
                  else info ''categories'')
             \<and> r ''date'' =
                 (case or_else (find_first (tag_class [''div''] ''date'') ac)
                         (find_first (tag_class [''span''] ''published-info'') ac) of
                    None \<Rightarrow> info ''date''
                  | Some el \<Rightarrow> Some (PStr (strip (get_text el))))
             \<and> r ''author'' =
                 (case or_else (find_first (tag_class [''div''] ''author-name-with-headshot'') ac)
                         (find_first (tag_class [''div''] ''author-name'') ac) of
                    Some ae \<Rightarrow>
                      (case find_first (\<lambda>t. is_tag [''a''] t \<and> attr_is ''rel'' ''author'' t) ae of
                         None \<Rightarrow> info ''author''
                       | Some al \<Rightarrow> Some (PStr (strip (get_text al))))
                  | None \<Rightarrow>
                      (case find_first (tag_class [''div''] ''article__byline'') ac of
                         None \<Rightarrow> info ''author''
                       | Some b \<Rightarrow> Some (PStr (strip (get_text b)))))
             \<and> r ''author_title'' =
                 (case or_else (find_first (tag_class [''div''] ''author-name-with-headshot'') ac)
                         (find_first (tag_class [''div''] ''author-name'') ac) of
                    Some ae \<Rightarrow>
                      (case find_first (tag_class [''span''] ''author-title'') ae of
                         None \<Rightarrow> info ''author_title''
                       | Some t \<Rightarrow> Some (PStr (strip (get_text t))))
                  | None \<Rightarrow> info ''author_title'')))"
proof (intro conjI)
  show "\<exists>d r. MultihousingScraper_parse_brief_content BeautifulSoup html_content info = Inr (d, r)
        \<and> (truthy (dict_get_none info k) \<longrightarrow> r k = info k)"
    using assms multihousing_resolve_keeps [of info k soup]
    by (cases "MultihousingScraper_resolve soup info")
       (auto simp: MultihousingScraper_parse_brief_content_def)
next
  show "\<exists>r. CredailyScraper_parse_brief_content BeautifulSoup html_content info = Inr r
        \<and> r k = info k"
    using assms(2) by (rule credaily_keeps)
next
  obtain content where res: "MultifamilydiveScraper_resolve soup info =
     (case mfd_article_container soup of
        None \<Rightarrow> info
      | Some ac \<Rightarrow> mfd_categories soup (mfd_date ac (mfd_author ac info)))
     (''content'' \<mapsto> PStr content)"
    using mfd_resolve_metadata by blast
  have run: "MultifamilydiveScraper_parse_article_content BeautifulSoup html_content info
      = Inr (MultifamilydiveScraper_resolve soup info)"
    using assms(1) by (simp add: MultifamilydiveScraper_parse_article_content_def)
  show "\<exists>r. MultifamilydiveScraper_parse_article_content BeautifulSoup html_content info = Inr r
        \<and> (case mfd_article_container soup of
             None \<Rightarrow> r k = info k
           | Some ac \<Rightarrow>
               r ''categories'' =
                 (if mfd_topics soup \<noteq> [] then Some (PList (mfd_topics soup))
                  else info ''categories'')
             \<and> r ''date'' =
                 (case or_else (find_first (tag_class [''div''] ''date'') ac)
                         (find_first (tag_class [''span''] ''published-info'') ac) of
                    None \<Rightarrow> info ''date''
                  | Some el \<Rightarrow> Some (PStr (strip (get_text el))))
             \<and> r ''author'' =
                 (case or_else (find_first (tag_class [''div''] ''author-name-with-headshot'') ac)
                         (find_first (tag_class [''div''] ''author-name'') ac) of
                    Some ae \<Rightarrow>
                      (case find_first (\<lambda>t. is_tag [''a''] t \<and> attr_is ''rel'' ''author'' t) ae of
                         None \<Rightarrow> info ''author''
                       | Some al \<Rightarrow> Some (PStr (strip (get_text al))))
                  | None \<Rightarrow>
                      (case find_first (tag_class [''div''] ''article__byline'') ac of
                         None \<Rightarrow> info ''author''
                       | Some b \<Rightarrow> Some (PStr (strip (get_text b)))))
             \<and> r ''author_title'' =
                 (case or_else (find_first (tag_class [''div''] ''author-name-with-headshot'') ac)
                         (find_first (tag_class [''div''] ''author-name'') ac) of
                    Some ae \<Rightarrow>
                      (case find_first (tag_class [''span''] ''author-title'') ae of
                         None \<Rightarrow> info ''author_title''
                       | Some t \<Rightarrow> Some (PStr (strip (get_text t))))
                  | None \<Rightarrow> info ''author_title''))"
  proof (cases "mfd_article_container soup")
    case None
    with res run assms(2) show ?thesis by simp
  next
    case (Some ac)
    have c: "mfd_categories soup (mfd_date ac (mfd_author ac info)) ''categories'' =
        (if mfd_topics soup \<noteq> [] then Some (PList (mfd_topics soup))
         else info ''categories'')"
      by (simp add: mfd_categories_def Let_def mfd_date_other mfd_author_other)
    have d: "mfd_date ac (mfd_author ac info) ''date'' =
        (case or_else (find_first (tag_class [''div''] ''date'') ac)
                (find_first (tag_class [''span''] ''published-info'') ac) of
           None \<Rightarrow> info ''date''
         | Some el \<Rightarrow> Some (PStr (strip (get_text el))))"
      by (simp add: mfd_date_def mfd_author_other split: option.splits)
    have a: "mfd_author ac info ''author'' =
        (case or_else (find_first (tag_class [''div''] ''author-name-with-headshot'') ac)
                (find_first (tag_class [''div''] ''author-name'') ac) of
           Some ae \<Rightarrow>
             (case find_first (\<lambda>t. is_tag [''a''] t \<and> attr_is ''rel'' ''author'' t) ae of
                None \<Rightarrow> info ''author''
              | Some al \<Rightarrow> Some (PStr (strip (get_text al))))
         | None \<Rightarrow>
             (case find_first (tag_class [''div''] ''article__byline'') ac of
                None \<Rightarrow> info ''author''
              | Some b \<Rightarrow> Some (PStr (strip (get_text b)))))"
      by (simp add: mfd_author_def Let_def split: option.splits)
    have t: "mfd_author ac info ''author_title'' =
        (case or_else (find_first (tag_class [''div''] ''author-name-with-headshot'') ac)
                (find_first (tag_class [''div''] ''author-name'') ac) of
           Some ae \<Rightarrow>
             (case find_first (tag_class [''span''] ''author-title'') ae of
                None \<Rightarrow> info ''author_title''
              | Some t \<Rightarrow> Some (PStr (strip (get_text t))))
         | None \<Rightarrow> info ''author_title'')"
      by (simp add: mfd_author_def Let_def split: option.splits)
    show ?thesis
      using Some res run
      by (simp add: c d a t mfd_categories_other mfd_date_other mfd_author_other)
  qed
qed

theorem detail_metadata_precedence_witness:
  "truthy (dict_get_none listed_with_author_and_category ''author'')
   \<and> mfd_article_container combined_page \<noteq> None
   \<and> (\<exists>d r. MultihousingScraper_parse_brief_content (\<lambda>h. Inr combined_page) ''<html>''
               listed_with_author_and_category = Inr (d, r)
        \<and> r ''author'' = Some (PStr ''Listing Author''))
   \<and> (\<exists>r. CredailyScraper_parse_brief_content (\<lambda>h. Inr combined_page) ''<html>''
               listed_with_author_and_category = Inr r
        \<and> r ''author'' = Some (PStr ''Listing Author''))
   \<and> (\<exists>r. MultifamilydiveScraper_parse_article_content (\<lambda>h. Inr combined_page) ''<html>''
               listed_with_author_and_category = Inr r
        \<and> r ''categories'' = Some (PList [''Policy'']))"
proof -
  have tr: "truthy (dict_get_none listed_with_author_and_category ''author'')"
    by code_simp
  have v: "listed_with_author_and_category ''author'' = Some (PStr ''Listing Author'')"
    by code_simp
  have ac: "mfd_article_container combined_page =
      Some (Tag ''article'' (cls ''brief'')
        [Tag ''div'' (cls ''post-article-topics'')
           [Tag ''a'' (cls ''topic'') [NavigableString ''Policy,'']],
         Tag ''div'' (cls ''article-body'') [para ''Body text.'']])"
    by code_simp
  have tp: "mfd_topics combined_page = [''Policy'']"
    by code_simp
  have k: "''author'' \<noteq> ''content''" by simp
  from detail_metadata_precedence [of "\<lambda>h. Inr combined_page" "''<html>''" combined_page
      "''author''" listed_with_author_and_category, OF refl k]
  show ?thesis using tr v ac tp by auto
qed

section \<open>Properties of the listing extractors\<close>

lemma links_loop_sound:
  "links_loop body items = Inr ls \<Longrightarrow> r \<in> set ls \<Longrightarrow> \<exists>item\<in>set items. body item = Inr (Some r)"
proof (induction items arbitrary: ls)
  case Nil
  then show ?case by simp
next
  case (Cons item items)
  then show ?case
    by (auto split: sum.splits option.splits)
qed

lemma links_loop_skip:
  "body item = Inr None \<Longrightarrow> links_loop body (pre @ item # rest) = links_loop body (pre @ rest)"
  by (induction pre) (auto split: sum.splits option.splits)

lemma except_return_empty_total: "\<exists>ls. except_return_empty t = Inr ls"
  by (cases t) (simp_all add: except_return_empty_def)

lemma CredailyScraper_brief_item_Some:
  "CredailyScraper_brief_item item = Inr (Some r) \<Longrightarrow>
   \<exists>anchor l. title_anchor (tag_class [''h5''] ''c-brief-list__item-title'') item = Some anchor
     \<and> tag_get anchor ''href'' = Some l \<and> r ''link'' = Some l
     \<and> r ''title'' = Some (PStr (strip (get_text anchor)))"
  by (auto simp: CredailyScraper_brief_item_def tag_getitem_def Let_def
      split: option.splits sum.splits)

lemma MultihousingScraper_brief_item_Some:
  "MultihousingScraper_brief_item item = Inr (Some r) \<Longrightarrow>
   \<exists>anchor l. title_anchor (tag_class [''h2''] ''fl-post-title'') item = Some anchor
     \<and> tag_get anchor ''href'' = Some l \<and> r ''link'' = Some l
     \<and> r ''title'' = Some (PStr (strip (get_text anchor)))"
  by (auto simp: MultihousingScraper_brief_item_def tag_getitem_def Let_def
      split: option.splits sum.splits)

lemma MultifamilydiveScraper_article_item_Some:
  "MultifamilydiveScraper_article_item item = Inr (Some r) \<Longrightarrow>
   \<exists>anchor href. title_anchor (tag_class [''h3''] ''feed__title'') item = Some anchor
     \<and> tag_get anchor ''href'' = Some (PStr href)
     \<and> r ''link'' = Some (PStr (if startswith href ''http'' then href
                                 else ''https://www.multifamilydive.com'' @ href))
     \<and> r ''title'' = Some (PStr (strip (get_text anchor)))"
  by (auto simp: MultifamilydiveScraper_article_item_def tag_getitem_def Let_def
      split: option.splits sum.splits bool.splits pyval.splits)

lemma parse_links_sound:
  assumes "\<And>item r. body item = Inr (Some r) \<Longrightarrow> P item r"
  shows "\<exists>ls. except_return_empty
            (case BeautifulSoup html_content of
               Inl e \<Rightarrow> Inl e
             | Inr soup \<Rightarrow> links_loop body (find_all F soup)) = Inr ls
       \<and> (\<forall>r\<in>set ls. \<exists>soup item. BeautifulSoup html_content = Inr soup
             \<and> item \<in> set (find_all F soup) \<and> P item r)"
proof (cases "BeautifulSoup html_content")
  case (Inl e)
  then show ?thesis by (simp add: except_return_empty_def)
next
  case (Inr soup)
  show ?thesis
  proof (cases "links_loop body (find_all F soup)")
    case (Inl e)
    with Inr show ?thesis by (simp add: except_return_empty_def)
  next
    case ls: (Inr ls)
    have "\<exists>item. item \<in> set (find_all F soup) \<and> P item r" if "r \<in> set ls" for r
      using links_loop_sound [OF ls that] assms by blast
    with Inr ls show ?thesis by (simp add: except_return_empty_def)
  qed
qed

lemma py_in_class_total:
  "attr_is ''class'' c item \<Longrightarrow> \<exists>b. py_in x (tag_get_default item ''class'' (PList [])) = Inr b"
  by (auto simp: attr_is_def tag_get_default_def split: option.splits pyval.splits)

lemma MultifamilydiveScraper_article_item_None:
  assumes "title_anchor (tag_class [''h3''] ''feed__title'') item = None"
    and "tag_class [''li''] ''feed__item'' item"
  shows "MultifamilydiveScraper_article_item item = Inr None"
proof -
  from assms(2) obtain b where
    "py_in ''feed-item-ad'' (tag_get_default item ''class'' (PList [])) = Inr b"
    using py_in_class_total [of "''feed__item''" item "''feed-item-ad''"]
    by (auto simp: tag_class_def)
  with assms(1) show ?thesis
    by (cases b) (simp_all add: MultifamilydiveScraper_article_item_def)
qed

text \<open>
  C10: every record a listing extractor returns comes from an item of the page's item
  list whose title element has an anchor; the record's \<^verbatim>\<open>title\<close> is the stripped
  text of that anchor and its \<^verbatim>\<open>link\<close> is the anchor's \<^verbatim>\<open>href\<close> (for
  multifamilydive, prefixed with the site when it does not start with \<^verbatim>\<open>http\<close>). An
  item without such an anchor contributes nothing and changes nothing for the other
  items: the loop gives what it gives without that item.
\<close>

theorem listing_records_come_from_title_anchors:
  "(\<exists>ls. CredailyScraper_parse_brief_links BeautifulSoup html_content page_num = Inr ls
      \<and> (\<forall>r\<in>set ls. \<exists>soup item.
            BeautifulSoup html_content = Inr soup
          \<and> item \<in> set (find_all (tag_class [''div''] ''c-brief-list__item'') soup)
          \<and> (\<exists>anchor l.
                title_anchor (tag_class [''h5''] ''c-brief-list__item-title'') item = Some anchor
              \<and> tag_get anchor ''href'' = Some l \<and> r ''link'' = Some l
              \<and> r ''title'' = Some (PStr (strip (get_text anchor))))))
   \<and> (\<exists>ls. MultihousingScraper_parse_brief_links BeautifulSoup html_content page_num = Inr ls
      \<and> (\<forall>r\<in>set ls. \<exists>soup item.
            BeautifulSoup html_content = Inr soup
          \<and> item \<in> set (find_all (tag_class [''div''] ''cpe-posts-category-page'') soup)
          \<and> (\<exists>anchor l.
                title_anchor (tag_class [''h2''] ''fl-post-title'') item = Some anchor
              \<and> tag_get anchor ''href'' = Some l \<and> r ''link'' = Some l
              \<and> r ''title'' = Some (PStr (strip (get_text anchor))))))
   \<and> (\<exists>ls. MultifamilydiveScraper_parse_article_links BeautifulSoup html_content page_num = Inr ls
      \<and> (\<forall>r\<in>set ls. \<exists>soup item.
            BeautifulSoup html_content = Inr soup
          \<and> item \<in> set (find_all (tag_class [''li''] ''feed__item'') soup)
          \<and> (\<exists>anchor href.
                title_anchor (tag_class [''h3''] ''feed__title'') item = Some anchor
              \<and> tag_get anchor ''href'' = Some (PStr href)
              \<and> r ''link'' = Some (PStr (if startswith href ''http'' then href
                                          else ''https://www.multifamilydive.com'' @ href))
              \<and> r ''title'' = Some (PStr (strip (get_text anchor))))))
   \<and> (title_anchor (tag_class [''h5''] ''c-brief-list__item-title'') x = None \<longrightarrow>
        links_loop CredailyScraper_brief_item (pre @ x # rest)
          = links_loop CredailyScraper_brief_item (pre @ rest))
   \<and> (title_anchor (tag_class [''h2''] ''fl-post-title'') x = None \<longrightarrow>
        links_loop MultihousingScraper_brief_item (pre @ x # rest)
          = links_loop MultihousingScraper_brief_item (pre @ rest))
   \<and> (title_anchor (tag_class [''h3''] ''feed__title'') x = None
        \<and> tag_class [''li''] ''feed__item'' x \<longrightarrow>
        links_loop MultifamilydiveScraper_article_item (pre @ x # rest)
          = links_loop MultifamilydiveScraper_article_item (pre @ rest))"
proof (intro conjI impI)
  show "\<exists>ls. CredailyScraper_parse_brief_links BeautifulSoup html_content page_num = Inr ls
      \<and> (\<forall>r\<in>set ls. \<exists>soup item.
            BeautifulSoup html_content = Inr soup
          \<and> item \<in> set (find_all (tag_class [''div''] ''c-brief-list__item'') soup)
          \<and> (\<exists>anchor l.
                title_anchor (tag_class [''h5''] ''c-brief-list__item-title'') item = Some anchor
              \<and> tag_get anchor ''href'' = Some l \<and> r ''link'' = Some l
              \<and> r ''title'' = Some (PStr (strip (get_text anchor)))))"
    unfolding CredailyScraper_parse_brief_links_def CredailyScraper_parse_brief_links_try_def
    by (rule parse_links_sound) (rule CredailyScraper_brief_item_Some)
next
  show "\<exists>ls. MultihousingScraper_parse_brief_links BeautifulSoup html_content page_num = Inr ls
      \<and> (\<forall>r\<in>set ls. \<exists>soup item.
            BeautifulSoup html_content = Inr soup
          \<and> item \<in> set (find_all (tag_class [''div''] ''cpe-posts-category-page'') soup)
          \<and> (\<exists>anchor l.
                title_anchor (tag_class [''h2''] ''fl-post-title'') item = Some anchor
              \<and> tag_get anchor ''href'' = Some l \<and> r ''link'' = Some l
              \<and> r ''title'' = Some (PStr (strip (get_text anchor)))))"
    unfolding MultihousingScraper_parse_brief_links_def
      MultihousingScraper_parse_brief_links_try_def
    by (rule parse_links_sound) (rule MultihousingScraper_brief_item_Some)
next
  show "\<exists>ls. MultifamilydiveScraper_parse_article_links BeautifulSoup html_content page_num = Inr ls
      \<and> (\<forall>r\<in>set ls. \<exists>soup item.
            BeautifulSoup html_content = Inr soup
          \<and> item \<in> set (find_all (tag_class [''li''] ''feed__item'') soup)
          \<and> (\<exists>anchor href.
                title_anchor (tag_class [''h3''] ''feed__title'') item = Some anchor
              \<and> tag_get anchor ''href'' = Some (PStr href)
              \<and> r ''link'' = Some (PStr (if startswith href ''http'' then href
                                          else ''https://www.multifamilydive.com'' @ href))
              \<and> r ''title'' = Some (PStr (strip (get_text anchor)))))"
    unfolding MultifamilydiveScraper_parse_article_links_def
      MultifamilydiveScraper_parse_article_links_try_def
    by (rule parse_links_sound) (rule MultifamilydiveScraper_article_item_Some)
next
  assume "title_anchor (tag_class [''h5''] ''c-brief-list__item-title'') x = None"
  then have "CredailyScraper_brief_item x = Inr None"
    by (simp add: CredailyScraper_brief_item_def)
  then show "links_loop CredailyScraper_brief_item (pre @ x # rest)
          = links_loop CredailyScraper_brief_item (pre @ rest)"
    by (rule links_loop_skip)
next
  assume "title_anchor (tag_class [''h2''] ''fl-post-title'') x = None"
  then have "MultihousingScraper_brief_item x = Inr None"
    by (simp add: MultihousingScraper_brief_item_def)
  then show "links_loop MultihousingScraper_brief_item (pre @ x # rest)
          = links_loop MultihousingScraper_brief_item (pre @ rest)"
    by (rule links_loop_skip)
next
  assume "title_anchor (tag_class [''h3''] ''feed__title'') x = None
        \<and> tag_class [''li''] ''feed__item'' x"
  then have "MultifamilydiveScraper_article_item x = Inr None"
    by (simp add: MultifamilydiveScraper_article_item_None)
  then show "links_loop MultifamilydiveScraper_article_item (pre @ x # rest)
          = links_loop MultifamilydiveScraper_article_item (pre @ rest)"
    by (rule links_loop_skip)
qed

theorem listing_records_come_from_title_anchors_witness:
  "title_anchor (tag_class [''h5''] ''c-brief-list__item-title'')
      (Tag ''div'' (cls ''c-brief-list__item'') [para ''Sponsored'']) = None
   \<and> links_loop CredailyScraper_brief_item
        ([] @ Tag ''div'' (cls ''c-brief-list__item'') [para ''Sponsored''] # [para ''Next''])
        = links_loop CredailyScraper_brief_item ([] @ [para ''Next''])
   \<and> (\<exists>ls. CredailyScraper_parse_brief_links (\<lambda>h. Inr credaily_listing) ''<html>'' 1 = Inr ls
        \<and> map (\<lambda>r. r ''link'') ls = [Some (PStr ''/briefs/b'')]
        \<and> (\<forall>r\<in>set ls. \<exists>item.
              item \<in> set (find_all (tag_class [''div''] ''c-brief-list__item'') credaily_listing)
            \<and> (\<exists>anchor l.
                  title_anchor (tag_class [''h5''] ''c-brief-list__item-title'') item = Some anchor
                \<and> tag_get anchor ''href'' = Some l \<and> r ''link'' = Some l
                \<and> r ''title'' = Some (PStr (strip (get_text anchor))))))"
proof -
  have a: "title_anchor (tag_class [''h5''] ''c-brief-list__item-title'')
      (Tag ''div'' (cls ''c-brief-list__item'') [para ''Sponsored'']) = None"
    by code_simp
  have b: "(case CredailyScraper_parse_brief_links (\<lambda>h. Inr credaily_listing) ''<html>'' 1 of
              Inl e \<Rightarrow> [] | Inr ls \<Rightarrow> map (\<lambda>r. r ''link'') ls) = [Some (PStr ''/briefs/b'')]"
    by code_simp
  have skipped: "links_loop CredailyScraper_brief_item
        ([] @ Tag ''div'' (cls ''c-brief-list__item'') [para ''Sponsored''] # [para ''Next''])
        = links_loop CredailyScraper_brief_item ([] @ [para ''Next''])"
    by (rule listing_records_come_from_title_anchors
          [of "\<lambda>h. Inr credaily_listing" "''<html>''" 1
             "Tag ''div'' (cls ''c-brief-list__item'') [para ''Sponsored'']" "[]" "[para ''Next'']",
           THEN conjunct2, THEN conjunct2, THEN conjunct2, THEN conjunct1, THEN mp, OF a])
  note t = listing_records_come_from_title_anchors
    [of "\<lambda>h. Inr credaily_listing" "''<html>''" 1, THEN conjunct1]
  then obtain ls where
    ls: "CredailyScraper_parse_brief_links (\<lambda>h. Inr credaily_listing) ''<html>'' 1 = Inr ls"
    and from_items: "\<forall>r\<in>set ls. \<exists>soup item.
            (Inr credaily_listing :: exn + node) = Inr soup
          \<and> item \<in> set (find_all (tag_class [''div''] ''c-brief-list__item'') soup)
          \<and> (\<exists>anchor l.
                title_anchor (tag_class [''h5''] ''c-brief-list__item-title'') item = Some anchor
              \<and> tag_get anchor ''href'' = Some l \<and> r ''link'' = Some l
              \<and> r ''title'' = Some (PStr (strip (get_text anchor))))"
    by (elim exE conjE)
  from b ls have links: "map (\<lambda>r. r ''link'') ls = [Some (PStr ''/briefs/b'')]"
    by simp
  from from_items have items: "\<forall>r\<in>set ls. \<exists>item.
              item \<in> set (find_all (tag_class [''div''] ''c-brief-list__item'') credaily_listing)
            \<and> (\<exists>anchor l.
                  title_anchor (tag_class [''h5''] ''c-brief-list__item-title'') item = Some anchor
                \<and> tag_get anchor ''href'' = Some l \<and> r ''link'' = Some l
                \<and> r ''title'' = Some (PStr (strip (get_text anchor))))"
    by (simp only: sum.inject simp_thms ex_simps)
  show ?thesis
    by (rule conjI [OF a], rule conjI [OF skipped], rule exI [of _ ls], intro conjI, rule ls,
        rule links, rule items)
qed






text \<open>
  C5: whatever the parser and the markup, the three listing extractors and the three
  content resolvers return a value to the caller. A listing extractor whose \<^verbatim>\<open>try\<close>
  block raises (the parser fails, or an anchor has no \<^verbatim>\<open>href\<close>) returns the empty
  list, and so does one whose page has none of the expected items. A content resolver
  whose parser fails returns the input record with \<^verbatim>\<open>content\<close> set to the empty
  string, and a page on which no selector finds text gives the same record.
\<close>

theorem extraction_never_raises:
  "(\<exists>ls. CredailyScraper_parse_brief_links BeautifulSoup html_content page_num = Inr ls)
   \<and> (\<exists>ls. MultihousingScraper_parse_brief_links BeautifulSoup html_content page_num = Inr ls)
   \<and> (\<exists>ls. MultifamilydiveScraper_parse_article_links BeautifulSoup html_content page_num = Inr ls)
   \<and> (CredailyScraper_parse_brief_links_try BeautifulSoup html_content = Inl e \<longrightarrow>
        CredailyScraper_parse_brief_links BeautifulSoup html_content page_num = Inr [])
   \<and> (MultihousingScraper_parse_brief_links_try BeautifulSoup html_content = Inl e \<longrightarrow>
        MultihousingScraper_parse_brief_links BeautifulSoup html_content page_num = Inr [])
   \<and> (MultifamilydiveScraper_parse_article_links_try BeautifulSoup html_content = Inl e \<longrightarrow>
        MultifamilydiveScraper_parse_article_links BeautifulSoup html_content page_num = Inr [])
   \<and> (BeautifulSoup html_content = Inr soup
        \<and> find_all (tag_class [''div''] ''c-brief-list__item'') soup = [] \<longrightarrow>
        CredailyScraper_parse_brief_links BeautifulSoup html_content page_num = Inr [])
   \<and> (BeautifulSoup html_content = Inr soup
        \<and> find_all (tag_class [''div''] ''cpe-posts-category-page'') soup = [] \<longrightarrow>
        MultihousingScraper_parse_brief_links BeautifulSoup html_content page_num = Inr [])
   \<and> (BeautifulSoup html_content = Inr soup
        \<and> find_all (tag_class [''li''] ''feed__item'') soup = [] \<longrightarrow>
        MultifamilydiveScraper_parse_article_links BeautifulSoup html_content page_num = Inr [])
   \<and> (\<exists>r. CredailyScraper_parse_brief_content BeautifulSoup html_content info = Inr r)
   \<and> (\<exists>r. MultifamilydiveScraper_parse_article_content BeautifulSoup html_content info = Inr r)
   \<and> (\<exists>p. MultihousingScraper_parse_brief_content BeautifulSoup html_content info = Inr p)
   \<and> (BeautifulSoup html_content = Inl e \<longrightarrow>
        CredailyScraper_parse_brief_content BeautifulSoup html_content info
          = Inr (info(''content'' \<mapsto> PStr []))
      \<and> MultifamilydiveScraper_parse_article_content BeautifulSoup html_content info
          = Inr (info(''content'' \<mapsto> PStr []))
      \<and> MultihousingScraper_parse_brief_content BeautifulSoup html_content info
          = Inr (info, info(''content'' \<mapsto> PStr [])))
   \<and> (BeautifulSoup html_content = Inr soup \<and> CredailyScraper_resolve soup = [] \<longrightarrow>
        CredailyScraper_parse_brief_content BeautifulSoup html_content info
          = Inr (info(''content'' \<mapsto> PStr [])))"
proof (intro conjI impI)
  show "\<exists>ls. CredailyScraper_parse_brief_links BeautifulSoup html_content page_num = Inr ls"
    unfolding CredailyScraper_parse_brief_links_def by (rule except_return_empty_total)
  show "\<exists>ls. MultihousingScraper_parse_brief_links BeautifulSoup html_content page_num = Inr ls"
    unfolding MultihousingScraper_parse_brief_links_def by (rule except_return_empty_total)
  show "\<exists>ls. MultifamilydiveScraper_parse_article_links BeautifulSoup html_content page_num = Inr ls"
    unfolding MultifamilydiveScraper_parse_article_links_def by (rule except_return_empty_total)
  show "CredailyScraper_parse_brief_links BeautifulSoup html_content page_num = Inr []"
    if "CredailyScraper_parse_brief_links_try BeautifulSoup html_content = Inl e"
    using that by (simp add: CredailyScraper_parse_brief_links_def except_return_empty_def)
  show "MultihousingScraper_parse_brief_links BeautifulSoup html_content page_num = Inr []"
    if "MultihousingScraper_parse_brief_links_try BeautifulSoup html_content = Inl e"
    using that by (simp add: MultihousingScraper_parse_brief_links_def except_return_empty_def)
  show "MultifamilydiveScraper_parse_article_links BeautifulSoup html_content page_num = Inr []"
    if "MultifamilydiveScraper_parse_article_links_try BeautifulSoup html_content = Inl e"
    using that
    by (simp add: MultifamilydiveScraper_parse_article_links_def except_return_empty_def)
  show "CredailyScraper_parse_brief_links BeautifulSoup html_content page_num = Inr []"
    if "BeautifulSoup html_content = Inr soup
        \<and> find_all (tag_class [''div''] ''c-brief-list__item'') soup = []"
    using that
    by (simp add: CredailyScraper_parse_brief_links_def
        CredailyScraper_parse_brief_links_try_def except_return_empty_def)
  show "MultihousingScraper_parse_brief_links BeautifulSoup html_content page_num = Inr []"
    if "BeautifulSoup html_content = Inr soup
        \<and> find_all (tag_class [''div''] ''cpe-posts-category-page'') soup = []"
    using that
    by (simp add: MultihousingScraper_parse_brief_links_def
        MultihousingScraper_parse_brief_links_try_def except_return_empty_def)
  show "MultifamilydiveScraper_parse_article_links BeautifulSoup html_content page_num = Inr []"
    if "BeautifulSoup html_content = Inr soup
        \<and> find_all (tag_class [''li''] ''feed__item'') soup = []"
    using that
    by (simp add: MultifamilydiveScraper_parse_article_links_def
        MultifamilydiveScraper_parse_article_links_try_def except_return_empty_def)
  show "\<exists>r. CredailyScraper_parse_brief_content BeautifulSoup html_content info = Inr r"
    by (cases "BeautifulSoup html_content")
       (simp_all add: CredailyScraper_parse_brief_content_def)
  show "\<exists>r. MultifamilydiveScraper_parse_article_content BeautifulSoup html_content info = Inr r"
    by (cases "BeautifulSoup html_content")
       (simp_all add: MultifamilydiveScraper_parse_article_content_def)
  show "\<exists>p. MultihousingScraper_parse_brief_content BeautifulSoup html_content info = Inr p"
    by (cases "BeautifulSoup html_content")
       (simp_all add: MultihousingScraper_parse_brief_content_def)
  show "CredailyScraper_parse_brief_content BeautifulSoup html_content info
          = Inr (info(''content'' \<mapsto> PStr []))"
    if "BeautifulSoup html_content = Inl e"
    using that by (simp add: CredailyScraper_parse_brief_content_def)
  show "MultifamilydiveScraper_parse_article_content BeautifulSoup html_content info
          = Inr (info(''content'' \<mapsto> PStr []))"
    if "BeautifulSoup html_content = Inl e"
    using that by (simp add: MultifamilydiveScraper_parse_article_content_def)
  show "MultihousingScraper_parse_brief_content BeautifulSoup html_content info
          = Inr (info, info(''content'' \<mapsto> PStr []))"
    if "BeautifulSoup html_content = Inl e"
    using that by (simp add: MultihousingScraper_parse_brief_content_def)
  show "CredailyScraper_parse_brief_content BeautifulSoup html_content info
          = Inr (info(''content'' \<mapsto> PStr []))"
    if "BeautifulSoup html_content = Inr soup \<and> CredailyScraper_resolve soup = []"
    using that by (simp add: CredailyScraper_parse_brief_content_def)
qed

theorem extraction_never_raises_witness:
  "CredailyScraper_parse_brief_links_try (\<lambda>h. Inr credaily_listing_without_href) ''<html>''
      = Inl (KeyError ''href'')
   \<and> CredailyScraper_parse_brief_links (\<lambda>h. Inr credaily_listing_without_href) ''<html>'' 1
      = Inr []
   \<and> find_all (tag_class [''div''] ''c-brief-list__item'') (page []) = []
   \<and> CredailyScraper_parse_brief_links (\<lambda>h. Inr (page [])) ''<html>'' 1 = Inr []
   \<and> CredailyScraper_resolve (page []) = []
   \<and> CredailyScraper_parse_brief_content (\<lambda>h. Inr (page [])) ''<html>'' listed_without_author
      = Inr (listed_without_author(''content'' \<mapsto> PStr []))
   \<and> CredailyScraper_parse_brief_content (\<lambda>h. Inl ParserError) ''<html>'' listed_without_author
      = Inr (listed_without_author(''content'' \<mapsto> PStr []))"
proof -
  have "(case CredailyScraper_parse_brief_links_try
             (\<lambda>h. Inr credaily_listing_without_href) ''<html>'' of
           Inl e \<Rightarrow> Some e
         | Inr ls \<Rightarrow> None) = Some (KeyError ''href'')"
    by code_simp
  then have raised: "CredailyScraper_parse_brief_links_try
      (\<lambda>h. Inr credaily_listing_without_href) ''<html>'' = Inl (KeyError ''href'')"
    by (simp split: sum.splits)
  have no_items: "find_all (tag_class [''div''] ''c-brief-list__item'') (page []) = []"
    by code_simp
  have no_text: "CredailyScraper_resolve (page []) = []"
    by code_simp
  have 1: "CredailyScraper_parse_brief_links (\<lambda>h. Inr credaily_listing_without_href) ''<html>'' 1
      = Inr []"
    by (rule extraction_never_raises [of "\<lambda>h. Inr credaily_listing_without_href" "''<html>''" 1
          "KeyError ''href''" "page []" listed_without_author,
          THEN conjunct2, THEN conjunct2, THEN conjunct2, THEN conjunct1, THEN mp, OF raised])
  have 2: "CredailyScraper_parse_brief_links (\<lambda>h. Inr (page [])) ''<html>'' 1 = Inr []"
    by (rule extraction_never_raises [of "\<lambda>h. Inr (page [])" "''<html>''" 1
          ParserError "page []" listed_without_author,
          THEN conjunct2, THEN conjunct2, THEN conjunct2, THEN conjunct2, THEN conjunct2, THEN conjunct2, THEN conjunct1, THEN mp, OF conjI [OF refl no_items]])
  have 3: "CredailyScraper_parse_brief_content (\<lambda>h. Inr (page [])) ''<html>'' listed_without_author
      = Inr (listed_without_author(''content'' \<mapsto> PStr []))"
    by (rule extraction_never_raises [of "\<lambda>h. Inr (page [])" "''<html>''" 1
          ParserError "page []" listed_without_author,
          THEN conjunct2, THEN conjunct2, THEN conjunct2, THEN conjunct2, THEN conjunct2, THEN conjunct2, THEN conjunct2, THEN conjunct2, THEN conjunct2, THEN conjunct2, THEN conjunct2, THEN conjunct2, THEN conjunct2, THEN mp, OF conjI [OF refl no_text]])
  have 4: "CredailyScraper_parse_brief_content (\<lambda>h. Inl ParserError) ''<html>''
      listed_without_author = Inr (listed_without_author(''content'' \<mapsto> PStr []))"
    by (rule extraction_never_raises [of "\<lambda>h. Inl ParserError" "''<html>''" 1
          ParserError "page []" listed_without_author,
          THEN conjunct2, THEN conjunct2, THEN conjunct2, THEN conjunct2, THEN conjunct2, THEN conjunct2, THEN conjunct2, THEN conjunct2, THEN conjunct2, THEN conjunct2, THEN conjunct2, THEN conjunct2, THEN conjunct1, THEN mp, OF refl, THEN conjunct1])
  from raised 1 no_items 2 no_text 3 4 show ?thesis
    by (intro conjI)
qed

end
